theory Spec2Isabelle
  imports Main "HOL-Library.AList"
begin

section \<open>Node reconciliation, spot provisioning and pricing lookup of pkg/kube/util.go\<close>

text \<open>
  The development embeds three functions of \<^verbatim>\<open>pkg/kube/util.go\<close>:
  \<^verbatim>\<open>syncMachines\<close> (node reconciliation), \<^verbatim>\<open>createAwsSpotInstance\<close> (the
  synchronous part of the spot request) and \<^verbatim>\<open>getAwsSpotPrices\<close> (pricing lookup).
  Go strings are byte sequences and are modelled as \<open>string\<close>. A Go function that
  mutates its arguments returns them updated. A nil pointer dereference is a run-time
  panic and is the value \<open>Panics\<close> of the type \<open>outcome\<close>; a returned Go
  \<^verbatim>\<open>error\<close> is an \<open>error option\<close> (\<open>None\<close> is nil).
\<close>

subsection \<open>Outcomes and errors\<close>

datatype 'a outcome = Returns 'a | Panics

text \<open>
  Error values. \<open>ProviderError\<close> is an error produced by a collaborator that is not
  part of the file (credential resolution, the EC2 client), carrying its message;
  \<open>Wrap\<close> is \<^verbatim>\<open>errors.Wrap(err, msg)\<close>; \<open>ErrSyntax\<close> and \<open>ErrRange\<close> are the two
  causes of a failure of \<^verbatim>\<open>strconv.ParseInt\<close> (the field \<^verbatim>\<open>Err\<close> of the
  \<^verbatim>\<open>*strconv.NumError\<close> that it returns). \<open>errorMessage\<close> gives the text of the
  cause alone for these two, not the text of the \<^verbatim>\<open>NumError\<close>, which also names the
  function and quotes the input; it is applied to the error of \<^verbatim>\<open>amazon.GetEC2\<close> only.
\<close>

datatype error =
    ProviderError string
  | ErrInvalidCredentials
  | ErrUnsupportedProvider
  | ErrSyntax
  | ErrRange
  | Wrap error string

fun errorMessage :: "error \<Rightarrow> string" where
  "errorMessage (ProviderError m) = m"
| "errorMessage ErrInvalidCredentials = ''invalid credentials''"
| "errorMessage ErrUnsupportedProvider = ''unsupported provider''"
| "errorMessage ErrSyntax = ''invalid syntax''"
| "errorMessage ErrRange = ''value out of range''"
| "errorMessage (Wrap e m) = m @ '': '' @ errorMessage e"

subsection \<open>The cluster model\<close>

text \<open>
  Modelled from the spec: the declarations of \<^verbatim>\<open>model.Machine\<close>, \<^verbatim>\<open>model.Kube\<close>,
  \<^verbatim>\<open>model.MachineStateActive\<close> and \<^verbatim>\<open>model.RoleNode\<close> (package \<^verbatim>\<open>pkg/model\<close>) are
  not part of the source at hand. A Machine has a name, a role (master or worker), a
  lifecycle state (provisioning, active, deleted), a size, a region, a private and a
  public IP. A cluster has an ID, a name, a region, an endpoint and two maps from node
  name to Machine, \<open>Masters\<close> and \<open>Nodes\<close>. The fields that the Go struct literal
  of \<^verbatim>\<open>syncMachines\<close> leaves out hold Go's zero value, the empty string.

  A Go map is an association list with distinct keys: a lookup is \<open>map_of\<close>, the
  assignment \<^verbatim>\<open>m[k] = v\<close> is \<open>AList.update\<close>, which replaces the entry of an
  existing key and adds one for a new key. Both maps are allocated and hold Machines
  (no nil entry), as the spec's data model has it.
\<close>

datatype Role = RoleMaster | RoleNode

datatype MachineState = MachineStateProvisioning | MachineStateActive | MachineStateDeleted

record Machine =
  Name :: string
  Size :: string
  State :: MachineState
  Role :: Role
  Region :: string
  PublicIp :: string
  PrivateIp :: string

record Kube =
  ID :: string
  KubeName :: string
  KubeRegion :: string
  ExternalDNSName :: string
  Masters :: "(string \<times> Machine) list"
  Nodes :: "(string \<times> Machine) list"

record CloudAccount =
  AccountName :: string
  AccountProvider :: string

subsection \<open>The EC2 inventory types\<close>

text \<open>
  The types of the AWS SDK that \<^verbatim>\<open>syncMachines\<close> reads. Every field is a pointer in
  Go, hence an \<open>option\<close> here (\<open>None\<close> is nil). The state code is an int64 that is
  only compared with 16, so \<open>int\<close> holds it.
\<close>

record Tag =
  Key :: "string option"
  Value :: "string option"

record InstanceState =
  Code :: "int option"

record Instance =
  InstanceType :: "string option"
  PublicIpAddress :: "string option"
  PrivateIpAddress :: "string option"
  Tags :: "Tag list"
  InstState :: "InstanceState option"

record Reservation =
  Instances :: "Instance list"

record DescribeInstancesOutput =
  Reservations :: "Reservation list"

subsection \<open>The provisioning configuration and the EC2 client\<close>

text \<open>
  \<^verbatim>\<open>steps.AWSConfig\<close> and \<^verbatim>\<open>steps.Config\<close>, with the fields the three functions
  use. \<open>Subnets\<close> is a Go map from availability zone to subnet id.
\<close>

record AWSConfig =
  AWSRegion :: string
  AvailabilityZone :: string
  AWSInstanceType :: string
  VolumeSize :: string
  NodesInstanceProfile :: string
  Subnets :: "(string \<times> string) list"
  NodesSecurityGroupID :: string
  ImageID :: string
  KeyPairName :: string

record Config =
  Provider :: string
  AWSConfig :: AWSConfig
  ConfigMapData :: string
  DryRun :: bool
  IsMaster :: bool

text \<open>The spot request of the caller (\<^verbatim>\<open>SpotRequest\<close>).\<close>

record SpotRequest =
  MachineType :: string
  SpotPrice :: string
  AvailabilityZoneReq :: string
  MachineCount :: int

text \<open>
  \<^verbatim>\<open>ec2.RequestSpotInstancesInput\<close> as \<^verbatim>\<open>createAwsSpotInstance\<close> fills it. Times are
  seconds; \<open>UserDataPlain\<close> is the payload before its base64 encoding.
\<close>

record RequestSpotInstancesInput =
  ReqType :: string
  IamInstanceProfileName :: string
  SubnetId :: string
  SecurityGroupIds :: "string list"
  ReqImageId :: string
  ReqInstanceType :: string
  KeyName :: string
  DeviceName :: string
  DeleteOnTermination :: bool
  VolumeType :: string
  ReqVolumeSize :: int
  UserDataPlain :: string
  ReqSpotPrice :: string
  ClientToken :: string
  InstanceCount :: int
  ReqDryRun :: bool
  ValidFrom :: int
  ValidUntil :: int

record DescribeSpotPriceHistoryInput =
  ReqAvailabilityZone :: string
  EndTime :: int
  StartTime :: int
  InstanceTypes :: "string list"

record SpotPriceEntry =
  ProductDescription :: "string option"
  SpotPriceValue :: "string option"

record DescribeSpotPriceHistoryOutput =
  SpotPriceHistory :: "SpotPriceEntry list"

text \<open>
  The EC2 client returned by \<^verbatim>\<open>amazon.GetEC2\<close>: each remote operation is a function
  from its input to what the provider answers. \<open>DescribeInstances\<close> takes the name
  and the value of the tag filter. The SDK's query methods return the output structure
  they allocated together with the error, so the output is never nil.
\<close>

record EC2 =
  DescribeInstances :: "string \<Rightarrow> string \<Rightarrow> DescribeInstancesOutput \<times> error option"
  RequestSpotInstances :: "RequestSpotInstancesInput \<Rightarrow> error option"
  DescribeSpotPriceHistory ::
    "DescribeSpotPriceHistoryInput \<Rightarrow> DescribeSpotPriceHistoryOutput \<times> error option"

text \<open>
  The collaborators and constants of other packages, taken as parameters:
  \<^verbatim>\<open>util.FillCloudAccountCredentials\<close> (the AWS configuration it fills, or its error),
  \<^verbatim>\<open>amazon.GetEC2\<close>, the tag keys \<^verbatim>\<open>clouds.TagClusterID\<close> and \<^verbatim>\<open>clouds.TagNodeName\<close>,
  the clock \<^verbatim>\<open>time.Now\<close> and the token of \<^verbatim>\<open>uuid.New\<close>.
\<close>

record Cloud =
  FillCloudAccountCredentials :: "CloudAccount \<Rightarrow> error + AWSConfig"
  GetEC2 :: "AWSConfig \<Rightarrow> error + EC2"
  TagClusterID :: string
  TagNodeName :: string
  Now :: int
  NewUUID :: string

subsection \<open>syncMachines\<close>

text \<open>
  The loop over the instance's tags (lines 143 to 147): every tag whose key is the
  node-name tag overwrites the name with its value, so the last one wins. The value is
  dereferenced without a nil test.
\<close>

fun tagLoop :: "string \<Rightarrow> Tag list \<Rightarrow> string \<Rightarrow> string outcome" where
  "tagLoop tn [] name = Returns name"
| "tagLoop tn (tag # tags) name =
     (if Key tag \<noteq> None \<and> Key tag = Some tn
      then (case Value tag of None \<Rightarrow> Panics | Some v \<Rightarrow> tagLoop tn tags v)
      else tagLoop tn tags name)"

text \<open>The loop over \<open>k.Nodes\<close> that computes \<open>isFound\<close> (lines 149 to 155).\<close>

fun isFoundLoop :: "(string \<times> Machine) list \<Rightarrow> string option \<Rightarrow> bool \<Rightarrow> bool" where
  "isFoundLoop [] ip isFound = isFound"
| "isFoundLoop ((n, machine) # ms) ip isFound =
     isFoundLoop ms ip
       (case ip of
          None \<Rightarrow> isFound
        | Some a \<Rightarrow> if PrivateIp machine = a then True else isFound)"

text \<open>The state code read at lines 157 to 161: zero unless both pointers are set.\<close>

definition stateCode :: "Instance \<Rightarrow> int" where
  "stateCode instance =
     (case InstState instance of
        None \<Rightarrow> 0
      | Some s \<Rightarrow> (case Code s of None \<Rightarrow> 0 | Some c \<Rightarrow> c))"

text \<open>The body of the inner loop (lines 128 to 167), for one instance.\<close>

definition syncInstance :: "string \<Rightarrow> Kube \<Rightarrow> Instance \<Rightarrow> Kube outcome" where
  "syncInstance tn k instance =
     (case InstanceType instance of
        None \<Rightarrow> Panics
      | Some ty \<Rightarrow>
          let node = \<lparr>Name = [], Size = ty, State = MachineStateActive, Role = RoleNode,
                      Region = KubeRegion k, PublicIp = [], PrivateIp = []\<rparr>;
              node = (case PublicIpAddress instance of
                        None \<Rightarrow> node | Some a \<Rightarrow> node\<lparr>PublicIp := a\<rparr>);
              node = (case PrivateIpAddress instance of
                        None \<Rightarrow> node | Some a \<Rightarrow> node\<lparr>PrivateIp := a\<rparr>)
          in (case tagLoop tn (Tags instance) (Name node) of
                Panics \<Rightarrow> Panics
              | Returns name \<Rightarrow>
                  let node = node\<lparr>Name := name\<rparr>;
                      isFound = isFoundLoop (Nodes k) (PrivateIpAddress instance) False;
                      state = stateCode instance
                  in if \<not> isFound \<and> map_of (Masters k) (Name node) = None \<and> state = 16
                     then Returns (k\<lparr>Nodes := AList.update (Name node) node (Nodes k)\<rparr>)
                     else Returns k))"

text \<open>The two nested loops (lines 126 and 127).\<close>

fun instancesLoop :: "string \<Rightarrow> Kube \<Rightarrow> Instance list \<Rightarrow> Kube outcome" where
  "instancesLoop tn k [] = Returns k"
| "instancesLoop tn k (instance # instances) =
     (case syncInstance tn k instance of
        Panics \<Rightarrow> Panics
      | Returns k' \<Rightarrow> instancesLoop tn k' instances)"

fun reservationsLoop :: "string \<Rightarrow> Kube \<Rightarrow> Reservation list \<Rightarrow> Kube outcome" where
  "reservationsLoop tn k [] = Returns k"
| "reservationsLoop tn k (res # ress) =
     (case instancesLoop tn k (Instances res) of
        Panics \<Rightarrow> Panics
      | Returns k' \<Rightarrow> reservationsLoop tn k' ress)"

text \<open>
  \<^verbatim>\<open>syncMachines\<close> returns the cluster as it leaves it and the error. The three early
  returns come before any mutation of the cluster.
\<close>

definition syncMachines :: "Cloud \<Rightarrow> Kube \<Rightarrow> CloudAccount \<Rightarrow> (Kube \<times> error option) outcome" where
  "syncMachines cloud k account =
     (case FillCloudAccountCredentials cloud account of
        Inl err \<Rightarrow> Returns (k, Some (Wrap err ''error fill cloud account credentials''))
      | Inr awsConfig \<Rightarrow>
          (case GetEC2 cloud (awsConfig\<lparr>AWSRegion := KubeRegion k\<rparr>) of
             Inl err \<Rightarrow> Returns (k, Some (Wrap ErrInvalidCredentials (errorMessage err)))
           | Inr ec2 \<Rightarrow>
               (case DescribeInstances ec2 (''tag:'' @ TagClusterID cloud) (ID k) of
                  (out, Some err) \<Rightarrow> Returns (k, Some (Wrap err ''describe instances''))
                | (out, None) \<Rightarrow>
                    (case reservationsLoop (TagNodeName cloud) k (Reservations out) of
                       Panics \<Rightarrow> Panics
                     | Returns k' \<Rightarrow> Returns (k', None)))))"

subsection \<open>strconv.ParseInt and strings.EqualFold\<close>

text \<open>
  \<^verbatim>\<open>strconv.ParseInt(s, 10, 64)\<close> of Go's standard library: an optional sign, then
  \<^verbatim>\<open>ParseUint\<close> on the rest, then the range test for int64. \<^verbatim>\<open>ParseUint\<close> reads
  byte by byte, fails with a syntax error on the empty string and on the first byte
  that is not a decimal digit, and with a range error as soon as the value leaves
  uint64. The accumulator is a \<open>nat\<close>, so the test \<open>maxVal < n1\<close> stands for both
  overflow tests of the source.
\<close>

definition isDigit :: "char \<Rightarrow> bool" where
  "isDigit c = (48 \<le> (of_char c :: nat) \<and> (of_char c :: nat) \<le> 57)"

fun parseUintLoop :: "string \<Rightarrow> nat \<Rightarrow> error + nat" where
  "parseUintLoop [] n = Inr n"
| "parseUintLoop (c # cs) n =
     (if \<not> isDigit c then Inl ErrSyntax
      else if n \<ge> (2 ^ 64 - 1) div 10 + 1 then Inl ErrRange
      else let n1 = n * 10 + (of_char c - 48)
           in if n1 > 2 ^ 64 - 1 then Inl ErrRange else parseUintLoop cs n1)"

definition ParseUint :: "string \<Rightarrow> error + nat" where
  "ParseUint s = (if s = [] then Inl ErrSyntax else parseUintLoop s 0)"

definition ParseInt :: "string \<Rightarrow> error + int" where
  "ParseInt s =
     (if s = [] then Inl ErrSyntax
      else let neg = (hd s = CHR ''-'');
               s' = (if hd s = CHR ''+'' \<or> hd s = CHR ''-'' then tl s else s)
           in (case ParseUint s' of
                 Inl err \<Rightarrow> Inl err
               | Inr un \<Rightarrow>
                   if \<not> neg \<and> un \<ge> 2 ^ 63 then Inl ErrRange
                   else if neg \<and> un > 2 ^ 63 then Inl ErrRange
                   else Inr (if neg then - int un else int un)))"

text \<open>
  \<^verbatim>\<open>strings.EqualFold\<close> on its byte path: two bytes match when they are equal or when
  the smaller one is an upper-case ASCII letter and the larger one its lower-case form.
  For a second argument that is ASCII and has none of the letters k and s, as
  \<^verbatim>\<open>"Linux/UNIX"\<close>, this is all of \<^verbatim>\<open>EqualFold\<close>: no rune beyond ASCII folds to one of
  its letters.
\<close>

fun EqualFold :: "string \<Rightarrow> string \<Rightarrow> bool" where
  "EqualFold [] [] = True"
| "EqualFold [] (t # ts) = False"
| "EqualFold (s # ss) [] = False"
| "EqualFold (s # ss) (t # ts) =
     (if t = s then EqualFold ss ts
      else let sr = min (of_char s) (of_char t :: nat);
               tr = max (of_char s) (of_char t :: nat)
           in if 65 \<le> sr \<and> sr \<le> 90 \<and> tr = sr + 32 then EqualFold ss ts else False)"

subsection \<open>createAwsSpotInstance\<close>

text \<open>
  The synchronous part of \<^verbatim>\<open>createAwsSpotInstance\<close> (lines 192 to 247 and the return
  at line 314). The result holds the configuration as the call leaves it (line 199
  writes the instance type into it), the inputs of the \<^verbatim>\<open>RequestSpotInstances\<close> calls
  made, in order, whether the detached completion task was started, and the error.
\<close>

record SpotOutcome =
  ConfigAfter :: Config
  Submitted :: "RequestSpotInstancesInput list"
  TaskStarted :: bool
  Err :: "error option"

definition createAwsSpotInstance :: "Cloud \<Rightarrow> SpotRequest \<Rightarrow> Config \<Rightarrow> SpotOutcome" where
  "createAwsSpotInstance cloud req config =
     (case GetEC2 cloud (AWSConfig config) of
        Inl err \<Rightarrow>
          \<lparr>ConfigAfter = config, Submitted = [], TaskStarted = False,
           Err = Some (Wrap err ''get EC2 client'')\<rparr>
      | Inr svc \<Rightarrow>
          let config = config\<lparr>AWSConfig := (AWSConfig config)\<lparr>AWSInstanceType := MachineType req\<rparr>\<rparr>
          in (case ParseInt (VolumeSize (AWSConfig config)) of
                Inl err \<Rightarrow>
                  \<lparr>ConfigAfter = config, Submitted = [], TaskStarted = False,
                   Err = Some (Wrap err (''parse volume size '' @ VolumeSize (AWSConfig config)))\<rparr>
              | Inr volumeSize \<Rightarrow>
                  let input =
                    \<lparr>ReqType = ''persistent'',
                     IamInstanceProfileName = NodesInstanceProfile (AWSConfig config),
                     SubnetId = (case map_of (Subnets (AWSConfig config)) (AvailabilityZoneReq req) of
                                   None \<Rightarrow> [] | Some subnet \<Rightarrow> subnet),
                     SecurityGroupIds = [NodesSecurityGroupID (AWSConfig config)],
                     ReqImageId = ImageID (AWSConfig config),
                     ReqInstanceType = AWSInstanceType (AWSConfig config),
                     KeyName = KeyPairName (AWSConfig config),
                     DeviceName = ''/dev/sda1'',
                     DeleteOnTermination = False,
                     VolumeType = ''gp2'',
                     ReqVolumeSize = volumeSize,
                     UserDataPlain = ''#!/bin/sh'' @ [CHR 0x0A] @ ConfigMapData config,
                     ReqSpotPrice = SpotPrice req,
                     ClientToken = NewUUID cloud,
                     InstanceCount = MachineCount req,
                     ReqDryRun = DryRun config,
                     ValidFrom = Now cloud + 10,
                     ValidUntil = Now cloud + 24 * 365 * 3600\<rparr>
                  in (case RequestSpotInstances svc input of
                        Some err \<Rightarrow>
                          \<lparr>ConfigAfter = config, Submitted = [input], TaskStarted = False,
                           Err = Some (Wrap err ''request spot instance'')\<rparr>
                      | None \<Rightarrow>
                          \<lparr>ConfigAfter = config, Submitted = [input], TaskStarted = True,
                           Err = None\<rparr>)))"

subsection \<open>getAwsSpotPrices\<close>

text \<open>
  The loop of lines 334 to 338: the description is dereferenced for every entry, the
  price only for an entry that passes the filter.
\<close>

fun pricesLoop :: "SpotPriceEntry list \<Rightarrow> string list \<Rightarrow> string list outcome" where
  "pricesLoop [] spotPrices = Returns spotPrices"
| "pricesLoop (spotPrice # rest) spotPrices =
     (case ProductDescription spotPrice of
        None \<Rightarrow> Panics
      | Some d \<Rightarrow>
          if EqualFold d ''Linux/UNIX''
          then (case SpotPriceValue spotPrice of
                  None \<Rightarrow> Panics
                | Some p \<Rightarrow> pricesLoop rest (spotPrices @ [p]))
          else pricesLoop rest spotPrices)"

text \<open>The error of the price-history query is dropped at line 331.\<close>

definition getAwsSpotPrices :: "Cloud \<Rightarrow> string \<Rightarrow> Config \<Rightarrow> (string list \<times> error option) outcome" where
  "getAwsSpotPrices cloud machineType config =
     (case GetEC2 cloud (AWSConfig config) of
        Inl err \<Rightarrow> Returns ([], Some (Wrap err ''get EC2 client''))
      | Inr svc \<Rightarrow>
          let spotPriceReq =
                \<lparr>ReqAvailabilityZone = AvailabilityZone (AWSConfig config),
                 EndTime = Now cloud,
                 StartTime = Now cloud - 24 * 7 * 3600,
                 InstanceTypes = [machineType]\<rparr>;
              prices = fst (DescribeSpotPriceHistory svc spotPriceReq)
          in (case pricesLoop (SpotPriceHistory prices) [] of
                Panics \<Rightarrow> Panics
              | Returns spotPrices \<Rightarrow> Returns (spotPrices, None)))"

subsection \<open>Vocabulary of the statements\<close>

text \<open>
  The Machine that lines 128 to 147 build for an instance of type \<open>ty\<close> with the
  derived name \<open>name\<close>, in a cluster of the given region.
\<close>

definition newNode :: "string \<Rightarrow> string \<Rightarrow> Instance \<Rightarrow> string \<Rightarrow> Machine" where
  "newNode region ty instance name =
     \<lparr>Name = name, Size = ty, State = MachineStateActive, Role = RoleNode, Region = region,
      PublicIp = (case PublicIpAddress instance of None \<Rightarrow> [] | Some a \<Rightarrow> a),
      PrivateIp = (case PrivateIpAddress instance of None \<Rightarrow> [] | Some a \<Rightarrow> a)\<rparr>"

text \<open>An instance is known when it has a private IP and a Machine of the map has it.\<close>

definition known :: "(string \<times> Machine) list \<Rightarrow> Instance \<Rightarrow> bool" where
  "known nodes instance =
     list_ex (\<lambda>(n, machine). PrivateIpAddress instance = Some (PrivateIp machine)) nodes"

text \<open>
  The instances that a pass visits, in the order of the two loops: those of the
  reservations that the inventory query returned, and none when one of the three calls
  before the loops failed.
\<close>

definition inventory :: "Cloud \<Rightarrow> Kube \<Rightarrow> CloudAccount \<Rightarrow> Instance list" where
  "inventory cloud k account =
     (case FillCloudAccountCredentials cloud account of
        Inl err \<Rightarrow> []
      | Inr awsConfig \<Rightarrow>
          (case GetEC2 cloud (awsConfig\<lparr>AWSRegion := KubeRegion k\<rparr>) of
             Inl err \<Rightarrow> []
           | Inr ec2 \<Rightarrow>
               (case DescribeInstances ec2 (''tag:'' @ TagClusterID cloud) (ID k) of
                  (out, Some err) \<Rightarrow> []
                | (out, None) \<Rightarrow> concat (map Instances (Reservations out)))))"

text \<open>
  Equality up to the case of ASCII letters, as the spec words the filter of the pricing
  lookup: \<open>asciiLower\<close> maps an upper-case ASCII letter to its lower-case form and
  leaves every other byte alone.
\<close>

definition asciiLower :: "char \<Rightarrow> char" where
  "asciiLower c =
     (if 65 \<le> (of_char c :: nat) \<and> (of_char c :: nat) \<le> 90 then char_of (of_char c + 32 :: nat) else c)"

text \<open>A price-history entry with a description and a price, both set.\<close>

definition priceEntry :: "string \<times> string \<Rightarrow> SpotPriceEntry" where
  "priceEntry e = \<lparr>ProductDescription = Some (fst e), SpotPriceValue = Some (snd e)\<rparr>"

text \<open>The description is \<^verbatim>\<open>Linux/UNIX\<close> up to the case of ASCII letters.\<close>

definition isLinuxUnix :: "string \<Rightarrow> bool" where
  "isLinuxUnix d = (map asciiLower d = map asciiLower ''Linux/UNIX'')"

subsection \<open>Example inputs\<close>

text \<open>
  A provider whose calls all succeed: the inventory query answers \<open>out\<close>, the
  price-history query answers \<open>history\<close> (with the error \<open>qerr\<close>, if any), and a
  spot request is accepted.
\<close>

definition exAWSConfig :: "string \<Rightarrow> AWSConfig" where
  "exAWSConfig volumeSize =
     \<lparr>AWSRegion = ''eu-west-1'', AvailabilityZone = ''eu-west-1a'', AWSInstanceType = [],
      VolumeSize = volumeSize, NodesInstanceProfile = ''nodes'', Subnets = [(''eu-west-1a'', ''subnet-1'')],
      NodesSecurityGroupID = ''sg-1'', ImageID = ''ami-1'', KeyPairName = ''key''\<rparr>"

definition exEC2 :: "DescribeInstancesOutput \<Rightarrow> SpotPriceEntry list \<Rightarrow> error option \<Rightarrow> EC2" where
  "exEC2 out history qerr =
     \<lparr>DescribeInstances = (\<lambda>name val. (out, None)),
      RequestSpotInstances = (\<lambda>input. None),
      DescribeSpotPriceHistory = (\<lambda>input. (\<lparr>SpotPriceHistory = history\<rparr>, qerr))\<rparr>"

definition exCloud :: "DescribeInstancesOutput \<Rightarrow> SpotPriceEntry list \<Rightarrow> error option \<Rightarrow> Cloud" where
  "exCloud out history qerr =
     \<lparr>FillCloudAccountCredentials = (\<lambda>account. Inr (exAWSConfig ''80'')),
      GetEC2 = (\<lambda>awsConfig. Inr (exEC2 out history qerr)),
      TagClusterID = ''cluster-id'', TagNodeName = ''Name'', Now = 1000000, NewUUID = ''token''\<rparr>"

definition exAccount :: CloudAccount where
  "exAccount = \<lparr>AccountName = ''account'', AccountProvider = ''aws''\<rparr>"

definition exKube :: "(string \<times> Machine) list \<Rightarrow> (string \<times> Machine) list \<Rightarrow> Kube" where
  "exKube masters nodes =
     \<lparr>ID = ''c1'', KubeName = ''cluster'', KubeRegion = ''eu-west-1'',
      ExternalDNSName = ''api.example'', Masters = masters, Nodes = nodes\<rparr>"

text \<open>An instance of type m4.large with the given tags, private IP and state code.\<close>

definition exInstance :: "Tag list \<Rightarrow> string option \<Rightarrow> int \<Rightarrow> Instance" where
  "exInstance tags ip code =
     \<lparr>InstanceType = Some ''m4.large'', PublicIpAddress = None, PrivateIpAddress = ip,
      Tags = tags, InstState = Some \<lparr>Code = Some code\<rparr>\<rparr>"

definition nameTag :: "string \<Rightarrow> Tag" where
  "nameTag name = \<lparr>Key = Some ''Name'', Value = Some name\<rparr>"

definition exOutput :: "Instance list \<Rightarrow> DescribeInstancesOutput" where
  "exOutput instances = \<lparr>Reservations = [\<lparr>Instances = instances\<rparr>]\<rparr>"

text \<open>A worker Machine of the example cluster with the given name and private IP.\<close>

definition exMachine :: "string \<Rightarrow> string \<Rightarrow> Machine" where
  "exMachine name ip =
     \<lparr>Name = name, Size = ''m4.large'', State = MachineStateActive, Role = RoleNode,
      Region = ''eu-west-1'', PublicIp = [], PrivateIp = ip\<rparr>"

section \<open>Properties of syncMachines\<close>

subsection \<open>The loop body\<close>

lemma isFoundLoop_iff:
  "isFoundLoop ms ip b \<longleftrightarrow> b \<or> (\<exists>(n, machine) \<in> set ms. ip = Some (PrivateIp machine))"
  by (induction ms ip b rule: isFoundLoop.induct) (auto split: option.splits)

lemma isFoundLoop_known: "isFoundLoop ms (PrivateIpAddress instance) False = known ms instance"
  by (auto simp: isFoundLoop_iff known_def list_ex_iff)

lemma known_iff:
  "known ms instance \<longleftrightarrow> (\<exists>(n, machine) \<in> set ms. PrivateIpAddress instance = Some (PrivateIp machine))"
  by (auto simp: known_def list_ex_iff)

text \<open>The loop body as one case distinction.\<close>

lemma syncInstance_unfold:
  "syncInstance tn k instance =
     (case InstanceType instance of
        None \<Rightarrow> Panics
      | Some ty \<Rightarrow>
          (case tagLoop tn (Tags instance) [] of
             Panics \<Rightarrow> Panics
           | Returns name \<Rightarrow>
               if \<not> known (Nodes k) instance \<and> map_of (Masters k) name = None \<and>
                  stateCode instance = 16
               then Returns (k\<lparr>Nodes :=
                      AList.update name (newNode (KubeRegion k) ty instance name) (Nodes k)\<rparr>)
               else Returns k))"
  unfolding isFoundLoop_known [symmetric] syncInstance_def newNode_def Let_def
  by (cases "InstanceType instance"; cases "PublicIpAddress instance";
      cases "PrivateIpAddress instance"; cases "tagLoop tn (Tags instance) []") simp_all

lemma tagLoop_Panics_iff:
  "tagLoop tn tags name = Panics \<longleftrightarrow> (\<exists>tag \<in> set tags. Key tag = Some tn \<and> Value tag = None)"
  by (induction tn tags name rule: tagLoop.induct) (auto split: option.splits)

lemma tagLoop_no_name_tag:
  "\<forall>tag \<in> set tags. Key tag \<noteq> Some tn \<Longrightarrow> tagLoop tn tags name = Returns name"
  by (induction tn tags name rule: tagLoop.induct) (auto split: option.splits)

text \<open>The derived name: the value of the last node-name tag, empty when there is none.\<close>

lemma tagLoop_last:
  assumes "\<forall>tag \<in> set tags. Key tag = Some tn \<longrightarrow> Value tag \<noteq> None"
  shows "tagLoop tn tags name =
           Returns (last (name # map (the \<circ> Value) (filter (\<lambda>tag. Key tag = Some tn) tags)))"
  using assms
  by (induction tn tags name rule: tagLoop.induct) (auto split: option.splits)

lemma stateCode_16_iff:
  "stateCode instance = 16 \<longleftrightarrow> (\<exists>s. InstState instance = Some s \<and> Code s = Some 16)"
  by (auto simp: stateCode_def split: option.splits)

text \<open>
  The loop body for an instance that has an instance type and whose tags give the name
  \<open>name\<close>: it inserts the instance under that name exactly when no Machine of
  \<open>Nodes\<close> has its private IP, the name is not a key of \<open>Masters\<close> and the
  state code is 16, and leaves the cluster as it is otherwise.
\<close>

lemma syncInstance_merge_rule:
  assumes "InstanceType instance = Some ty"
    and "tagLoop tn (Tags instance) [] = Returns name"
  shows "syncInstance tn k instance =
           Returns
            (if (\<forall>(n, machine) \<in> set (Nodes k). PrivateIpAddress instance \<noteq> Some (PrivateIp machine))
                \<and> name \<notin> fst ` set (Masters k)
                \<and> (\<exists>s. InstState instance = Some s \<and> Code s = Some 16)
             then k\<lparr>Nodes := AList.update name
                    \<lparr>Name = name, Size = ty, State = MachineStateActive, Role = RoleNode,
                     Region = KubeRegion k,
                     PublicIp = (case PublicIpAddress instance of None \<Rightarrow> [] | Some a \<Rightarrow> a),
                     PrivateIp = (case PrivateIpAddress instance of None \<Rightarrow> [] | Some a \<Rightarrow> a)\<rparr>
                    (Nodes k)\<rparr>
             else k)"
  using assms
  by (auto simp: syncInstance_unfold known_iff stateCode_16_iff newNode_def map_of_eq_None_iff)

lemma syncInstance_cases:
  assumes "syncInstance tn s i = Returns s'"
  obtains "s' = s"
  | ty name where "InstanceType i = Some ty" "tagLoop tn (Tags i) [] = Returns name"
      "\<not> known (Nodes s) i" "map_of (Masters s) name = None" "stateCode i = 16"
      "s' = s\<lparr>Nodes := AList.update name (newNode (KubeRegion s) ty i name) (Nodes s)\<rparr>"
proof (cases "InstanceType i")
  case None
  with assms show ?thesis by (simp add: syncInstance_unfold)
next
  case (Some ty)
  show ?thesis
  proof (cases "tagLoop tn (Tags i) []")
    case Panics
    with assms Some show ?thesis by (simp add: syncInstance_unfold)
  next
    case (Returns name)
    show ?thesis
    proof (cases "\<not> known (Nodes s) i \<and> map_of (Masters s) name = None \<and> stateCode i = 16")
      case True
      with assms Some Returns that(2) [of ty name] show ?thesis
        by (simp add: syncInstance_unfold)
    next
      case False
      with assms Some Returns that(1) show ?thesis
        by (simp add: syncInstance_unfold)
    qed
  qed
qed

lemma syncInstance_frame:
  assumes "syncInstance tn s i = Returns s'"
  shows "s' = s\<lparr>Nodes := Nodes s'\<rparr>"
proof (rule syncInstance_cases [OF assms])
  assume "s' = s"
  then show ?thesis by simp
next
  fix ty name
  assume "s' = s\<lparr>Nodes := AList.update name (newNode (KubeRegion s) ty i name) (Nodes s)\<rparr>"
  then show ?thesis by simp
qed

subsection \<open>The pass as one loop\<close>

lemma instancesLoop_append:
  "instancesLoop tn k (xs @ ys) =
     (case instancesLoop tn k xs of Panics \<Rightarrow> Panics | Returns k' \<Rightarrow> instancesLoop tn k' ys)"
  by (induction xs arbitrary: k) (auto split: outcome.splits)

lemma reservationsLoop_concat:
  "reservationsLoop tn k ress = instancesLoop tn k (concat (map Instances ress))"
  by (induction ress arbitrary: k) (auto simp: instancesLoop_append split: outcome.splits)

text \<open>The pass reaches the instance at position \<open>j\<close> with the cluster that the instances before it left.\<close>

lemma instancesLoop_take_Suc:
  assumes "j < length insts"
  shows "instancesLoop tn k (take (Suc j) insts) =
           (case instancesLoop tn k (take j insts) of
              Panics \<Rightarrow> Panics
            | Returns kj \<Rightarrow> syncInstance tn kj (insts ! j))"
proof -
  from assms have "take (Suc j) insts = take j insts @ [insts ! j]"
    by (rule take_Suc_conv_app_nth)
  then show ?thesis
    by (simp add: instancesLoop_append split: outcome.splits)
qed

lemma instancesLoop_invariant:
  assumes "instancesLoop tn k insts = Returns k'"
    and "P k"
    and "\<And>s i s'. P s \<Longrightarrow> i \<in> set insts \<Longrightarrow> syncInstance tn s i = Returns s' \<Longrightarrow> P s'"
  shows "P k'"
  using assms
proof (induction insts arbitrary: k)
  case Nil
  then show ?case by simp
next
  case (Cons i insts)
  from Cons.prems(1) obtain s where s: "syncInstance tn k i = Returns s"
    and rest: "instancesLoop tn s insts = Returns k'"
    by (auto split: outcome.splits)
  have "P s" using Cons.prems(3) [OF Cons.prems(2) _ s] by simp
  show ?case
  proof (rule Cons.IH [OF rest \<open>P s\<close>])
    fix s0 j s1
    assume "P s0" and "j \<in> set insts" and "syncInstance tn s0 j = Returns s1"
    then show "P s1" using Cons.prems(3) [of s0 j s1] by simp
  qed
qed

lemma syncMachines_Returns:
  assumes "syncMachines cloud k account = Returns (k', err)"
  shows "instancesLoop (TagNodeName cloud) k (inventory cloud k account) = Returns k'"
proof (cases "FillCloudAccountCredentials cloud account")
  case (Inl e)
  with assms show ?thesis by (simp add: syncMachines_def inventory_def)
next
  case (Inr awsConfig)
  show ?thesis
  proof (cases "GetEC2 cloud (awsConfig\<lparr>AWSRegion := KubeRegion k\<rparr>)")
    case (Inl e)
    with assms Inr show ?thesis by (simp add: syncMachines_def inventory_def)
  next
    case ec2: (Inr ec2)
    obtain out qerr where q: "DescribeInstances ec2 (''tag:'' @ TagClusterID cloud) (ID k) = (out, qerr)"
      by (cases "DescribeInstances ec2 (''tag:'' @ TagClusterID cloud) (ID k)")
    show ?thesis
    proof (cases qerr)
      case None
      with assms Inr ec2 q show ?thesis
        by (simp add: syncMachines_def inventory_def reservationsLoop_concat split: outcome.splits)
    next
      case (Some e)
      with assms Inr ec2 q show ?thesis by (simp add: syncMachines_def inventory_def)
    qed
  qed
qed

text \<open>When the three calls before the loops succeed, the pass is the loop over the inventory.\<close>

lemma syncMachines_success:
  assumes "FillCloudAccountCredentials cloud account = Inr awsConfig"
    and "GetEC2 cloud (awsConfig\<lparr>AWSRegion := KubeRegion k\<rparr>) = Inr ec2"
    and "DescribeInstances ec2 (''tag:'' @ TagClusterID cloud) (ID k) = (out, None)"
  shows "syncMachines cloud k account =
           (case instancesLoop (TagNodeName cloud) k (inventory cloud k account) of
              Panics \<Rightarrow> Panics
            | Returns k' \<Rightarrow> Returns (k', None))"
  using assms by (simp add: syncMachines_def inventory_def reservationsLoop_concat)

lemma Nodes_update_fields:
  "k1 = k\<lparr>Nodes := ns\<rparr> \<Longrightarrow> ID k1 = ID k \<and> KubeRegion k1 = KubeRegion k \<and> Masters k1 = Masters k"
  by simp

lemma Nodes_update_trans:
  "s = k\<lparr>Nodes := a\<rparr> \<Longrightarrow> s' = s\<lparr>Nodes := b\<rparr> \<Longrightarrow> s' = k\<lparr>Nodes := b\<rparr>"
  by simp

lemma instancesLoop_frame:
  assumes "instancesLoop tn k insts = Returns k'"
  shows "k' = k\<lparr>Nodes := Nodes k'\<rparr>"
proof (rule instancesLoop_invariant [OF assms, where P = "\<lambda>s. s = k\<lparr>Nodes := Nodes s\<rparr>"])
  show "k = k\<lparr>Nodes := Nodes k\<rparr>" by simp
next
  fix s i s'
  assume "s = k\<lparr>Nodes := Nodes s\<rparr>" and "syncInstance tn s i = Returns s'"
  then show "s' = k\<lparr>Nodes := Nodes s'\<rparr>"
    using syncInstance_frame Nodes_update_trans by blast
qed

text \<open>Unfolding the example inputs and evaluating a pass on them.\<close>

lemmas ex_defs = exCloud_def exEC2_def exOutput_def exInstance_def nameTag_def exKube_def
  exMachine_def exAccount_def exAWSConfig_def

lemmas sync_eval = syncMachines_def syncInstance_def stateCode_def Let_def

subsection \<open>The merge policy\<close>

text \<open>
  C1. A pass whose three calls to the provider succeed, over an inventory in which
  \<open>instance\<close> comes after the instances \<open>before\<close> and ahead of the instances
  \<open>rest\<close>; the pass reaches \<open>instance\<close> with the cluster \<open>kj\<close>, and
  \<open>instance\<close> has an instance type and the derived name \<open>name\<close>. Then the pass
  inserts \<open>instance\<close> into \<open>Nodes\<close> under \<open>name\<close> if and only if no Machine
  of \<open>Nodes\<close> has its private IP, \<open>name\<close> is not a key of \<open>Masters\<close>, and
  its state code is 16; otherwise it leaves the cluster as it is (so an instance with
  another state code, or with none, is never merged). \<^verbatim>\<open>syncMachines\<close> goes on from
  that cluster with the instances of \<open>rest\<close> and returns what they leave.
\<close>

theorem syncMachines_merges_iff:
  assumes "FillCloudAccountCredentials cloud account = Inr awsConfig"
    and "GetEC2 cloud (awsConfig\<lparr>AWSRegion := KubeRegion k\<rparr>) = Inr ec2"
    and "DescribeInstances ec2 (''tag:'' @ TagClusterID cloud) (ID k) = (out, None)"
    and "concat (map Instances (Reservations out)) = before @ instance # rest"
    and "instancesLoop (TagNodeName cloud) k before = Returns kj"
    and "InstanceType instance = Some ty"
    and "tagLoop (TagNodeName cloud) (Tags instance) [] = Returns name"
  shows "instancesLoop (TagNodeName cloud) k (before @ [instance]) =
           Returns
            (if (\<forall>(n, machine) \<in> set (Nodes kj). PrivateIpAddress instance \<noteq> Some (PrivateIp machine))
                \<and> name \<notin> fst ` set (Masters k)
                \<and> (\<exists>s. InstState instance = Some s \<and> Code s = Some 16)
             then kj\<lparr>Nodes := AList.update name
                    \<lparr>Name = name, Size = ty, State = MachineStateActive, Role = RoleNode,
                     Region = KubeRegion k,
                     PublicIp = (case PublicIpAddress instance of None \<Rightarrow> [] | Some a \<Rightarrow> a),
                     PrivateIp = (case PrivateIpAddress instance of None \<Rightarrow> [] | Some a \<Rightarrow> a)\<rparr>
                    (Nodes kj)\<rparr>
             else kj)
       \<and> syncMachines cloud k account =
           (case instancesLoop (TagNodeName cloud) k (before @ [instance]) of
              Panics \<Rightarrow> Panics
            | Returns kj' \<Rightarrow>
                (case instancesLoop (TagNodeName cloud) kj' rest of
                   Panics \<Rightarrow> Panics
                 | Returns k' \<Rightarrow> Returns (k', None)))"
proof (intro conjI)
  have same: "ID kj = ID k \<and> KubeRegion kj = KubeRegion k \<and> Masters kj = Masters k"
    using instancesLoop_frame [OF assms(5)] by (rule Nodes_update_fields)
  show "instancesLoop (TagNodeName cloud) k (before @ [instance]) =
           Returns
            (if (\<forall>(n, machine) \<in> set (Nodes kj). PrivateIpAddress instance \<noteq> Some (PrivateIp machine))
                \<and> name \<notin> fst ` set (Masters k)
                \<and> (\<exists>s. InstState instance = Some s \<and> Code s = Some 16)
             then kj\<lparr>Nodes := AList.update name
                    \<lparr>Name = name, Size = ty, State = MachineStateActive, Role = RoleNode,
                     Region = KubeRegion k,
                     PublicIp = (case PublicIpAddress instance of None \<Rightarrow> [] | Some a \<Rightarrow> a),
                     PrivateIp = (case PrivateIpAddress instance of None \<Rightarrow> [] | Some a \<Rightarrow> a)\<rparr>
                    (Nodes kj)\<rparr>
             else kj)"
  proof -
    from same have m: "Masters kj = Masters k" and r: "KubeRegion kj = KubeRegion k"
      by simp_all
    note step = syncInstance_merge_rule [OF assms(6,7), of kj, unfolded m r]
    from assms(5) show ?thesis
      by (simp add: instancesLoop_append step)
  qed
next
  have "syncMachines cloud k account =
      (case instancesLoop (TagNodeName cloud) k ((before @ [instance]) @ rest) of
         Panics \<Rightarrow> Panics | Returns k' \<Rightarrow> Returns (k', None))"
    using assms(1-4) by (simp add: syncMachines_def reservationsLoop_concat)
  then show "syncMachines cloud k account =
           (case instancesLoop (TagNodeName cloud) k (before @ [instance]) of
              Panics \<Rightarrow> Panics
            | Returns kj' \<Rightarrow>
                (case instancesLoop (TagNodeName cloud) kj' rest of
                   Panics \<Rightarrow> Panics
                 | Returns k' \<Rightarrow> Returns (k', None)))"
    unfolding instancesLoop_append [of _ _ "before @ [instance]" rest]
    by (simp split: outcome.splits)
qed

theorem syncMachines_merges_iff_witness:
  "syncMachines
     (exCloud (exOutput [exInstance [nameTag ''worker-a''] (Some ''10.0.1.5'') 16,
                         exInstance [nameTag ''worker-b''] (Some ''10.0.1.6'') 16,
                         exInstance [nameTag ''worker-c''] (Some ''10.0.1.7'') 80]) [] None)
     (exKube [] []) exAccount =
   Returns (exKube [] [(''worker-a'', exMachine ''worker-a'' ''10.0.1.5''),
                       (''worker-b'', exMachine ''worker-b'' ''10.0.1.6'')], None)"
proof -
  let ?a = "exInstance [nameTag ''worker-a''] (Some ''10.0.1.5'') 16"
  let ?b = "exInstance [nameTag ''worker-b''] (Some ''10.0.1.6'') 16"
  let ?c = "exInstance [nameTag ''worker-c''] (Some ''10.0.1.7'') 80"
  let ?cloud = "exCloud (exOutput [?a, ?b, ?c]) [] None"
  let ?kj = "exKube [] [(''worker-a'', exMachine ''worker-a'' ''10.0.1.5'')]"
  have h1: "FillCloudAccountCredentials ?cloud exAccount = Inr (exAWSConfig ''80'')"
    by (simp add: exCloud_def)
  have h2: "GetEC2 ?cloud ((exAWSConfig ''80'')\<lparr>AWSRegion := KubeRegion (exKube [] [])\<rparr>) =
      Inr (exEC2 (exOutput [?a, ?b, ?c]) [] None)"
    by (simp add: exCloud_def)
  have h3: "DescribeInstances (exEC2 (exOutput [?a, ?b, ?c]) [] None)
      (''tag:'' @ TagClusterID ?cloud) (ID (exKube [] [])) = (exOutput [?a, ?b, ?c], None)"
    by (simp add: exEC2_def)
  have h4: "concat (map Instances (Reservations (exOutput [?a, ?b, ?c]))) = [?a] @ ?b # [?c]"
    by (simp add: exOutput_def)
  have h5: "instancesLoop (TagNodeName ?cloud) (exKube [] []) [?a] = Returns ?kj"
    by (simp add: ex_defs sync_eval)
  have h6: "InstanceType ?b = Some ''m4.large''"
    by (simp add: exInstance_def)
  have h7: "tagLoop (TagNodeName ?cloud) (Tags ?b) [] = Returns ''worker-b''"
    by (simp add: exCloud_def exInstance_def nameTag_def)
  from syncMachines_merges_iff [OF h1 h2 h3 h4 h5 h6 h7] show ?thesis
    by (simp add: ex_defs sync_eval)
qed

subsection \<open>Role exclusivity\<close>

lemma syncInstance_Masters:
  assumes "syncInstance tn s i = Returns s'"
  shows "Masters s' = Masters s \<and> KubeRegion s' = KubeRegion s \<and> ID s' = ID s"
proof -
  have "s' = s\<lparr>Nodes := Nodes s'\<rparr>" using assms by (rule syncInstance_frame)
  then show ?thesis using Nodes_update_fields by blast
qed

lemma syncInstance_master_name:
  assumes "syncInstance tn s i = Returns s'" and "map_of (Masters s) n \<noteq> None"
  shows "map_of (Nodes s') n = map_of (Nodes s) n"
proof (rule syncInstance_cases [OF assms(1)])
  assume "s' = s"
  then show ?thesis by simp
next
  fix ty name
  assume "map_of (Masters s) name = None"
    and "s' = s\<lparr>Nodes := AList.update name (newNode (KubeRegion s) ty i name) (Nodes s)\<rparr>"
  with assms(2) show ?thesis by (auto simp: AList.update_conv')
qed

lemma instancesLoop_master_name:
  assumes "instancesLoop tn k insts = Returns k'" and "map_of (Masters k) n \<noteq> None"
  shows "map_of (Nodes k') n = map_of (Nodes k) n"
proof -
  have "Masters k' = Masters k \<and> map_of (Nodes k') n = map_of (Nodes k) n"
  proof (rule instancesLoop_invariant [OF assms(1),
        where P = "\<lambda>s. Masters s = Masters k \<and> map_of (Nodes s) n = map_of (Nodes k) n"])
    show "Masters k = Masters k \<and> map_of (Nodes k) n = map_of (Nodes k) n" by simp
  next
    fix s i s'
    assume inv: "Masters s = Masters k \<and> map_of (Nodes s) n = map_of (Nodes k) n"
      and step: "syncInstance tn s i = Returns s'"
    from inv assms(2) have "map_of (Masters s) n \<noteq> None" by simp
    with step have "map_of (Nodes s') n = map_of (Nodes s) n" by (rule syncInstance_master_name)
    with inv syncInstance_Masters [OF step]
    show "Masters s' = Masters k \<and> map_of (Nodes s') n = map_of (Nodes k) n" by simp
  qed
  then show ?thesis by simp
qed

lemma syncInstance_master_skipped:
  assumes "InstanceType instance = Some ty" and "tagLoop tn (Tags instance) [] = Returns n"
    and "n \<in> fst ` set (Masters k)"
  shows "syncInstance tn k instance = Returns k"
  using assms by (auto simp: syncInstance_unfold map_of_eq_None_iff)

text \<open>
  C2. For a name \<open>n\<close> that is a key of \<open>Masters\<close>: the loop body leaves the
  cluster as it is for every instance whose derived name is \<open>n\<close>, whatever its
  private IP and state are, and a whole pass leaves the entry of \<open>Nodes\<close> under
  \<open>n\<close> (or its absence) and the map \<open>Masters\<close> as they were. So a name present in
  \<open>Masters\<close> is never merged into \<open>Nodes\<close>.
\<close>

theorem syncMachines_masters_excluded:
  assumes "n \<in> fst ` set (Masters k)"
  shows "(InstanceType instance = Some ty \<and> tagLoop tn (Tags instance) [] = Returns n
            \<longrightarrow> syncInstance tn k instance = Returns k)
       \<and> (syncMachines cloud k account = Returns (k', err)
            \<longrightarrow> map_of (Nodes k') n = map_of (Nodes k) n \<and> Masters k' = Masters k)"
proof (intro conjI impI)
  assume "InstanceType instance = Some ty \<and> tagLoop tn (Tags instance) [] = Returns n"
  with assms show "syncInstance tn k instance = Returns k"
    by (simp add: syncInstance_master_skipped)
next
  assume run: "syncMachines cloud k account = Returns (k', err)"
  from assms have "map_of (Masters k) n \<noteq> None" by (simp add: map_of_eq_None_iff)
  with syncMachines_Returns [OF run] show "map_of (Nodes k') n = map_of (Nodes k) n"
    by (rule instancesLoop_master_name)
  show "Masters k' = Masters k"
    using instancesLoop_frame [OF syncMachines_Returns [OF run]] Nodes_update_fields by blast
qed

theorem syncMachines_masters_excluded_witness:
  "syncInstance ''Name'' (exKube [(''master-a'', exMachine ''master-a'' ''10.0.0.9'')] [])
      (exInstance [nameTag ''master-a''] (Some ''10.0.0.7'') 16) =
     Returns (exKube [(''master-a'', exMachine ''master-a'' ''10.0.0.9'')] [])
   \<and> syncMachines (exCloud (exOutput [exInstance [nameTag ''master-a''] (Some ''10.0.0.7'') 16]) [] None)
       (exKube [(''master-a'', exMachine ''master-a'' ''10.0.0.9'')] []) exAccount =
     Returns (exKube [(''master-a'', exMachine ''master-a'' ''10.0.0.9'')] [], None)"
  using syncMachines_masters_excluded
    [of "''master-a''" "exKube [(''master-a'', exMachine ''master-a'' ''10.0.0.9'')] []"
        "exInstance [nameTag ''master-a''] (Some ''10.0.0.7'') 16" "''m4.large''" "''Name''"
        "exCloud (exOutput [exInstance [nameTag ''master-a''] (Some ''10.0.0.7'') 16]) [] None"
        exAccount "exKube [(''master-a'', exMachine ''master-a'' ''10.0.0.9'')] []" None]
  by (simp add: ex_defs sync_eval)

subsection \<open>What a pass inserts\<close>

lemma syncInstance_inserted_shape:
  assumes "syncInstance tn s i = Returns s'" and "map_of (Nodes s') n = Some m"
  shows "map_of (Nodes s) n = Some m \<or>
         (Name m = n \<and> Role m = RoleNode \<and> State m = MachineStateActive \<and> Region m = KubeRegion s)"
proof (rule syncInstance_cases [OF assms(1)])
  assume "s' = s"
  with assms(2) show ?thesis by simp
next
  fix ty name
  assume "s' = s\<lparr>Nodes := AList.update name (newNode (KubeRegion s) ty i name) (Nodes s)\<rparr>"
  with assms(2) show ?thesis
    by (cases "n = name") (auto simp: AList.update_conv' newNode_def)
qed

lemma instancesLoop_inserted_shape:
  assumes "instancesLoop tn k insts = Returns k'"
  shows "\<forall>n m. map_of (Nodes k') n = Some m \<longrightarrow> map_of (Nodes k) n = Some m \<or>
         (Name m = n \<and> Role m = RoleNode \<and> State m = MachineStateActive \<and> Region m = KubeRegion k)"
proof -
  let ?Q = "\<lambda>s. \<forall>n m. map_of (Nodes s) n = Some m \<longrightarrow> map_of (Nodes k) n = Some m \<or>
         (Name m = n \<and> Role m = RoleNode \<and> State m = MachineStateActive \<and> Region m = KubeRegion k)"
  have "KubeRegion k' = KubeRegion k \<and> ?Q k'"
  proof (rule instancesLoop_invariant [OF assms, where P = "\<lambda>s. KubeRegion s = KubeRegion k \<and> ?Q s"])
    show "KubeRegion k = KubeRegion k \<and> ?Q k" by simp
  next
    fix s i s'
    assume inv: "KubeRegion s = KubeRegion k \<and> ?Q s" and step: "syncInstance tn s i = Returns s'"
    have "?Q s'"
    proof (intro allI impI)
      fix n m
      assume "map_of (Nodes s') n = Some m"
      with step have "map_of (Nodes s) n = Some m \<or>
         (Name m = n \<and> Role m = RoleNode \<and> State m = MachineStateActive \<and> Region m = KubeRegion s)"
        by (rule syncInstance_inserted_shape)
      with inv show "map_of (Nodes k) n = Some m \<or>
         (Name m = n \<and> Role m = RoleNode \<and> State m = MachineStateActive \<and> Region m = KubeRegion k)"
        by auto
    qed
    with inv syncInstance_Masters [OF step] show "KubeRegion s' = KubeRegion k \<and> ?Q s'" by simp
  qed
  then show ?thesis by simp
qed

text \<open>
  C10. Every Machine that a pass puts into \<open>Nodes\<close> (an entry of the result that
  was not there before) has the role worker, the state active, the region of the
  cluster and the name it is keyed under; \<open>Masters\<close> is unchanged, so no observed
  instance is ever recorded as a master.
\<close>

theorem syncMachines_inserts_active_workers:
  assumes "syncMachines cloud k account = Returns (k', err)"
    and "map_of (Nodes k') n = Some m"
    and "map_of (Nodes k) n \<noteq> Some m"
  shows "Role m = RoleNode \<and> State m = MachineStateActive \<and> Region m = KubeRegion k \<and> Name m = n
         \<and> Masters k' = Masters k"
proof -
  note loop = syncMachines_Returns [OF assms(1)]
  from instancesLoop_inserted_shape [OF loop] assms(2,3)
  have "Name m = n \<and> Role m = RoleNode \<and> State m = MachineStateActive \<and> Region m = KubeRegion k"
    by blast
  moreover have "Masters k' = Masters k"
    using instancesLoop_frame [OF loop] Nodes_update_fields by blast
  ultimately show ?thesis by simp
qed


theorem syncMachines_inserts_active_workers_witness:
  "Role (exMachine ''worker-a'' ''10.0.1.5'') = RoleNode
   \<and> State (exMachine ''worker-a'' ''10.0.1.5'') = MachineStateActive
   \<and> Region (exMachine ''worker-a'' ''10.0.1.5'') = KubeRegion (exKube [] [])
   \<and> syncMachines
       (exCloud (exOutput [exInstance [nameTag ''worker-a''] (Some ''10.0.1.5'') 16]) [] None)
       (exKube [] []) exAccount =
      Returns (exKube [] [(''worker-a'', exMachine ''worker-a'' ''10.0.1.5'')], None)"
  using syncMachines_inserts_active_workers
    [of "exCloud (exOutput [exInstance [nameTag ''worker-a''] (Some ''10.0.1.5'') 16]) [] None"
        "exKube [] []" exAccount "exKube [] [(''worker-a'', exMachine ''worker-a'' ''10.0.1.5'')]"
        None "''worker-a''" "exMachine ''worker-a'' ''10.0.1.5''"]
  by (simp add: ex_defs sync_eval)

subsection \<open>What a pass leaves alone\<close>

lemma syncInstance_keys:
  assumes "syncInstance tn s i = Returns s'"
  shows "fst ` set (Nodes s) \<subseteq> fst ` set (Nodes s')"
proof (rule syncInstance_cases [OF assms])
  assume "s' = s"
  then show ?thesis by simp
next
  fix ty name
  assume "s' = s\<lparr>Nodes := AList.update name (newNode (KubeRegion s) ty i name) (Nodes s)\<rparr>"
  then show ?thesis by (auto simp: AList.dom_update)
qed

lemma instancesLoop_keys:
  assumes "instancesLoop tn k insts = Returns k'"
  shows "fst ` set (Nodes k) \<subseteq> fst ` set (Nodes k')"
proof (rule instancesLoop_invariant [OF assms, where P = "\<lambda>s. fst ` set (Nodes k) \<subseteq> fst ` set (Nodes s)"])
  show "fst ` set (Nodes k) \<subseteq> fst ` set (Nodes k)" by simp
next
  fix s i s'
  assume "fst ` set (Nodes k) \<subseteq> fst ` set (Nodes s)" and "syncInstance tn s i = Returns s'"
  then show "fst ` set (Nodes k) \<subseteq> fst ` set (Nodes s')"
    using syncInstance_keys by blast
qed

lemma syncInstance_other_name:
  assumes "syncInstance tn s i = Returns s'" and "tagLoop tn (Tags i) [] \<noteq> Returns n"
  shows "map_of (Nodes s') n = map_of (Nodes s) n"
proof (rule syncInstance_cases [OF assms(1)])
  assume "s' = s"
  then show ?thesis by simp
next
  fix ty name
  assume "tagLoop tn (Tags i) [] = Returns name"
    and "s' = s\<lparr>Nodes := AList.update name (newNode (KubeRegion s) ty i name) (Nodes s)\<rparr>"
  with assms(2) show ?thesis by (auto simp: AList.update_conv')
qed

lemma instancesLoop_other_name:
  assumes "instancesLoop tn k insts = Returns k'"
    and "\<forall>i \<in> set insts. tagLoop tn (Tags i) [] \<noteq> Returns n"
  shows "map_of (Nodes k') n = map_of (Nodes k) n"
proof (rule instancesLoop_invariant [OF assms(1), where P = "\<lambda>s. map_of (Nodes s) n = map_of (Nodes k) n"])
  show "map_of (Nodes k) n = map_of (Nodes k) n" by simp
next
  fix s i s'
  assume "map_of (Nodes s) n = map_of (Nodes k) n" and "i \<in> set insts"
    and "syncInstance tn s i = Returns s'"
  then show "map_of (Nodes s') n = map_of (Nodes k) n"
    using syncInstance_other_name [of tn s i s' n] assms(2) by simp
qed

lemma syncMachines_error_unchanged:
  assumes "syncMachines cloud k account = Returns (k', Some e)"
  shows "k' = k"
  using assms
  by (simp add: syncMachines_def split: sum.splits prod.splits option.splits outcome.splits)

text \<open>
  C6, as amended. A pass that returns changes nothing but \<open>Nodes\<close>: \<open>Masters\<close>
  and every other field of the cluster are as before; every key of \<open>Nodes\<close> is
  still a key; the entry under a name that no instance of the inventory carries is
  unmodified; and a pass that returns an error changes nothing at all. (An entry whose
  name an unknown, running instance carries is replaced: see the counterexample.)
\<close>

theorem syncMachines_frame:
  assumes "syncMachines cloud k account = Returns (k', err)"
  shows "k' = k\<lparr>Nodes := Nodes k'\<rparr>
       \<and> fst ` set (Nodes k) \<subseteq> fst ` set (Nodes k')
       \<and> (\<forall>n. (\<forall>i \<in> set (inventory cloud k account).
                  tagLoop (TagNodeName cloud) (Tags i) [] \<noteq> Returns n)
              \<longrightarrow> map_of (Nodes k') n = map_of (Nodes k) n)
       \<and> (err \<noteq> None \<longrightarrow> k' = k)"
proof -
  note loop = syncMachines_Returns [OF assms]
  have "err \<noteq> None \<longrightarrow> k' = k"
    using assms syncMachines_error_unchanged by blast
  with instancesLoop_frame [OF loop] instancesLoop_keys [OF loop] instancesLoop_other_name [OF loop]
  show ?thesis by blast
qed

theorem syncMachines_frame_witness:
  "syncMachines
     (exCloud (exOutput [exInstance [nameTag ''worker-b''] (Some ''10.0.0.2'') 16]) [] None)
     (exKube [] [(''worker-a'', exMachine ''worker-a'' ''10.0.0.1'')]) exAccount =
   Returns (exKube [] [(''worker-a'', exMachine ''worker-a'' ''10.0.0.1''),
                       (''worker-b'', exMachine ''worker-b'' ''10.0.0.2'')], None)
   \<and> map_of (Nodes (exKube [] [(''worker-a'', exMachine ''worker-a'' ''10.0.0.1''),
                       (''worker-b'', exMachine ''worker-b'' ''10.0.0.2'')])) ''worker-a'' =
       Some (exMachine ''worker-a'' ''10.0.0.1'')"
  using syncMachines_frame
    [of "exCloud (exOutput [exInstance [nameTag ''worker-b''] (Some ''10.0.0.2'') 16]) [] None"
        "exKube [] [(''worker-a'', exMachine ''worker-a'' ''10.0.0.1'')]" exAccount
        "exKube [] [(''worker-a'', exMachine ''worker-a'' ''10.0.0.1''),
                       (''worker-b'', exMachine ''worker-b'' ''10.0.0.2'')]" None]
  by (simp add: ex_defs sync_eval)

text \<open>
  The claim as stated fails: an unknown running instance that carries the name of an
  existing entry replaces that entry's Machine.
\<close>

theorem syncMachines_frame_counterexample:
  "syncMachines
     (exCloud (exOutput [exInstance [nameTag ''worker-a''] (Some ''10.0.0.2'') 16]) [] None)
     (exKube [] [(''worker-a'', exMachine ''worker-a'' ''10.0.0.1'')]) exAccount =
   Returns (exKube [] [(''worker-a'', exMachine ''worker-a'' ''10.0.0.2'')], None)
   \<and> map_of (Nodes (exKube [] [(''worker-a'', exMachine ''worker-a'' ''10.0.0.1'')])) ''worker-a'' =
       Some (exMachine ''worker-a'' ''10.0.0.1'')
   \<and> map_of (Nodes (exKube [] [(''worker-a'', exMachine ''worker-a'' ''10.0.0.2'')])) ''worker-a'' \<noteq>
       Some (exMachine ''worker-a'' ''10.0.0.1'')"
  by (simp add: ex_defs sync_eval)

subsection \<open>Instances with missing identity data\<close>

lemma syncInstance_Panics_iff:
  "syncInstance tn k i = Panics \<longleftrightarrow>
     InstanceType i = None \<or> (\<exists>tag \<in> set (Tags i). Key tag = Some tn \<and> Value tag = None)"
proof (cases "InstanceType i")
  case None
  then show ?thesis by (simp add: syncInstance_unfold)
next
  case (Some ty)
  show ?thesis
  proof (cases "tagLoop tn (Tags i) []")
    case Panics
    with Some show ?thesis
      using tagLoop_Panics_iff [of tn "Tags i" "[]"] by (simp add: syncInstance_unfold)
  next
    case (Returns name)
    with Some show ?thesis
      using tagLoop_Panics_iff [of tn "Tags i" "[]"] by (simp add: syncInstance_unfold)
  qed
qed

lemma instancesLoop_returns:
  assumes "\<forall>i \<in> set insts. InstanceType i \<noteq> None \<and>
             (\<forall>tag \<in> set (Tags i). Key tag = Some tn \<longrightarrow> Value tag \<noteq> None)"
  shows "\<exists>k'. instancesLoop tn k insts = Returns k'"
  using assms
proof (induction insts arbitrary: k)
  case Nil
  then show ?case by simp
next
  case (Cons i insts)
  from Cons.prems have "syncInstance tn k i \<noteq> Panics"
    by (auto simp: syncInstance_Panics_iff)
  then obtain s where s: "syncInstance tn k i = Returns s"
    by (cases "syncInstance tn k i") auto
  from Cons.prems have "\<forall>i \<in> set insts. InstanceType i \<noteq> None \<and>
             (\<forall>tag \<in> set (Tags i). Key tag = Some tn \<longrightarrow> Value tag \<noteq> None)"
    by simp
  from Cons.IH [OF this, of s] s show ?case by simp
qed

lemma known_no_private_ip: "PrivateIpAddress instance = None \<Longrightarrow> \<not> known nodes instance"
  by (simp add: known_def list_ex_iff split_beta)

text \<open>
  C4, as amended. Missing identity data does not make the pass skip an instance, and
  does not make it fail. An instance with no node-name tag gets the empty name: the
  loop body inserts it under the empty name when it is not known, the empty name is not
  a key of \<open>Masters\<close> and its state code is 16. An instance with no private IP is
  never known. And when the three calls to the provider succeed, every instance has an
  instance type and every node-name tag has a value, the pass returns without error.
\<close>

theorem syncMachines_missing_identity:
  "((\<forall>tag \<in> set (Tags instance). Key tag \<noteq> Some tn) \<and> InstanceType instance = Some ty \<longrightarrow>
      syncInstance tn k instance =
        Returns (if \<not> known (Nodes k) instance \<and> [] \<notin> fst ` set (Masters k) \<and>
                    stateCode instance = 16
                 then k\<lparr>Nodes := AList.update [] (newNode (KubeRegion k) ty instance []) (Nodes k)\<rparr>
                 else k))
   \<and> (PrivateIpAddress instance = None \<longrightarrow> \<not> known (Nodes k) instance)
   \<and> (FillCloudAccountCredentials cloud account = Inr awsConfig \<and>
      GetEC2 cloud (awsConfig\<lparr>AWSRegion := KubeRegion k\<rparr>) = Inr ec2 \<and>
      DescribeInstances ec2 (''tag:'' @ TagClusterID cloud) (ID k) = (out, None) \<and>
      (\<forall>i \<in> set (concat (map Instances (Reservations out))).
          InstanceType i \<noteq> None \<and>
          (\<forall>tag \<in> set (Tags i). Key tag = Some (TagNodeName cloud) \<longrightarrow> Value tag \<noteq> None)) \<longrightarrow>
      (\<exists>k'. syncMachines cloud k account = Returns (k', None)))"
proof (intro conjI impI)
  assume a: "(\<forall>tag \<in> set (Tags instance). Key tag \<noteq> Some tn) \<and> InstanceType instance = Some ty"
  then have "tagLoop tn (Tags instance) [] = Returns []"
    by (simp add: tagLoop_no_name_tag)
  with a show "syncInstance tn k instance =
        Returns (if \<not> known (Nodes k) instance \<and> [] \<notin> fst ` set (Masters k) \<and>
                    stateCode instance = 16
                 then k\<lparr>Nodes := AList.update [] (newNode (KubeRegion k) ty instance []) (Nodes k)\<rparr>
                 else k)"
    by (simp add: syncInstance_unfold map_of_eq_None_iff)
next
  assume "PrivateIpAddress instance = None"
  then show "\<not> known (Nodes k) instance" by (rule known_no_private_ip)
next
  assume a: "FillCloudAccountCredentials cloud account = Inr awsConfig \<and>
      GetEC2 cloud (awsConfig\<lparr>AWSRegion := KubeRegion k\<rparr>) = Inr ec2 \<and>
      DescribeInstances ec2 (''tag:'' @ TagClusterID cloud) (ID k) = (out, None) \<and>
      (\<forall>i \<in> set (concat (map Instances (Reservations out))).
          InstanceType i \<noteq> None \<and>
          (\<forall>tag \<in> set (Tags i). Key tag = Some (TagNodeName cloud) \<longrightarrow> Value tag \<noteq> None))"
  then obtain k' where
    "instancesLoop (TagNodeName cloud) k (concat (map Instances (Reservations out))) = Returns k'"
    using instancesLoop_returns [of "concat (map Instances (Reservations out))" "TagNodeName cloud" k]
    by blast
  with a have "syncMachines cloud k account = Returns (k', None)"
    by (simp add: syncMachines_def reservationsLoop_concat)
  then show "\<exists>k'. syncMachines cloud k account = Returns (k', None)" ..
qed

theorem syncMachines_missing_identity_witness:
  "syncInstance ''Name'' (exKube [] []) (exInstance [] None 16) =
     Returns (exKube [] [([], exMachine [] [])])
   \<and> \<not> known (Nodes (exKube [] [])) (exInstance [] None 16)
   \<and> syncMachines (exCloud (exOutput [exInstance [] None 16]) [] None) (exKube [] []) exAccount =
          Returns (exKube [] [([], exMachine [] [])], None)"
  using syncMachines_missing_identity
    [of "exInstance [] None 16" "''Name''" "''m4.large''" "exKube [] []"
        "exCloud (exOutput [exInstance [] None 16]) [] None" exAccount "exAWSConfig ''80''"
        "exEC2 (exOutput [exInstance [] None 16]) [] None" "exOutput [exInstance [] None 16]"]
  by (simp add: ex_defs sync_eval known_def newNode_def)

text \<open>
  The claim as stated fails: a running instance with no tag and no private IP, in an
  empty cluster, is inserted under the empty name.
\<close>

theorem syncMachines_missing_identity_counterexample:
  "syncMachines (exCloud (exOutput [exInstance [] None 16]) [] None) (exKube [] []) exAccount =
     Returns (exKube [] [([], exMachine [] [])], None)"
  by (simp add: ex_defs sync_eval)

subsection \<open>Running a pass twice\<close>

lemma update_fixed_iff: "AList.update n v al = al \<longleftrightarrow> map_of al n = Some v"
proof
  assume "AList.update n v al = al"
  then have "map_of al n = map_of (AList.update n v al) n" by simp
  then show "map_of al n = Some v" by (simp add: AList.update_conv')
next
  assume "map_of al n = Some v"
  then show "AList.update n v al = al" by (rule AList.update_triv)
qed

lemma Nodes_update_fixed_iff: "k\<lparr>Nodes := ns\<rparr> = k \<longleftrightarrow> ns = Nodes k"
  by (cases k) auto

text \<open>An instance is settled in a cluster when the loop body leaves the cluster as it is.\<close>

lemma settled_iff:
  "syncInstance tn s i = Returns s \<longleftrightarrow>
     (\<exists>ty name. InstanceType i = Some ty \<and> tagLoop tn (Tags i) [] = Returns name \<and>
        (known (Nodes s) i \<or> map_of (Masters s) name \<noteq> None \<or> stateCode i \<noteq> 16 \<or>
         map_of (Nodes s) name = Some (newNode (KubeRegion s) ty i name)))"
proof (cases "InstanceType i")
  case None
  then show ?thesis by (simp add: syncInstance_unfold)
next
  case (Some ty)
  show ?thesis
  proof (cases "tagLoop tn (Tags i) []")
    case Panics
    with Some show ?thesis by (simp add: syncInstance_unfold)
  next
    case (Returns name)
    with Some show ?thesis
      by (auto simp: syncInstance_unfold Nodes_update_fixed_iff update_fixed_iff)
  qed
qed

lemma settled_after_step:
  assumes "syncInstance tn s i = Returns s'"
  shows "syncInstance tn s' i = Returns s'"
proof (rule syncInstance_cases [OF assms])
  assume "s' = s"
  with assms show ?thesis by simp
next
  fix ty name
  assume "InstanceType i = Some ty" and "tagLoop tn (Tags i) [] = Returns name"
    and "s' = s\<lparr>Nodes := AList.update name (newNode (KubeRegion s) ty i name) (Nodes s)\<rparr>"
  then show ?thesis
    by (simp add: settled_iff AList.update_conv')
qed

lemma settled_mono:
  assumes "syncInstance tn s i = Returns s"
    and "Masters s1 = Masters s" and "KubeRegion s1 = KubeRegion s"
    and "set (Nodes s) \<subseteq> set (Nodes s1)" and "distinct (map fst (Nodes s1))"
  shows "syncInstance tn s1 i = Returns s1"
proof -
  from assms(1) obtain ty name where ty: "InstanceType i = Some ty"
    and name: "tagLoop tn (Tags i) [] = Returns name"
    and d: "known (Nodes s) i \<or> map_of (Masters s) name \<noteq> None \<or> stateCode i \<noteq> 16 \<or>
         map_of (Nodes s) name = Some (newNode (KubeRegion s) ty i name)"
    unfolding settled_iff by blast
  have k: "known (Nodes s) i \<Longrightarrow> known (Nodes s1) i"
    using assms(4) unfolding known_iff by blast
  have m: "map_of (Nodes s) name = Some (newNode (KubeRegion s) ty i name)
      \<Longrightarrow> map_of (Nodes s1) name = Some (newNode (KubeRegion s1) ty i name)"
  proof -
    assume "map_of (Nodes s) name = Some (newNode (KubeRegion s) ty i name)"
    then have "(name, newNode (KubeRegion s) ty i name) \<in> set (Nodes s)" by (rule map_of_SomeD)
    with assms(4) have "(name, newNode (KubeRegion s) ty i name) \<in> set (Nodes s1)" by blast
    with assms(5) have "map_of (Nodes s1) name = Some (newNode (KubeRegion s) ty i name)"
      by (simp add: map_of_is_SomeI)
    with assms(3) show ?thesis by simp
  qed
  from d k m assms(2) have "known (Nodes s1) i \<or> map_of (Masters s1) name \<noteq> None \<or> stateCode i \<noteq> 16 \<or>
         map_of (Nodes s1) name = Some (newNode (KubeRegion s1) ty i name)"
    by auto
  with ty name show ?thesis unfolding settled_iff by blast
qed

lemma syncInstance_distinct:
  assumes "syncInstance tn s i = Returns s'" and "distinct (map fst (Nodes s))"
  shows "distinct (map fst (Nodes s'))"
proof (rule syncInstance_cases [OF assms(1)])
  assume "s' = s"
  with assms(2) show ?thesis by simp
next
  fix ty name
  assume "s' = s\<lparr>Nodes := AList.update name (newNode (KubeRegion s) ty i name) (Nodes s)\<rparr>"
  with assms(2) show ?thesis by (simp add: AList.distinct_update)
qed

lemma instancesLoop_distinct:
  assumes "instancesLoop tn k insts = Returns k'" and "distinct (map fst (Nodes k))"
  shows "distinct (map fst (Nodes k'))"
proof (rule instancesLoop_invariant [OF assms(1), where P = "\<lambda>s. distinct (map fst (Nodes s))"])
  show "distinct (map fst (Nodes k))" by (rule assms(2))
next
  fix s i s'
  assume "distinct (map fst (Nodes s))" and "syncInstance tn s i = Returns s'"
  then show "distinct (map fst (Nodes s'))" using syncInstance_distinct by blast
qed

text \<open>A pass keeps the keys of \<open>Nodes\<close> distinct.\<close>

lemma syncMachines_distinct:
  assumes "syncMachines cloud k account = Returns (k', err)" and "distinct (map fst (Nodes k))"
  shows "distinct (map fst (Nodes k'))"
  using instancesLoop_distinct [OF syncMachines_Returns [OF assms(1)] assms(2)] .

lemma instancesLoop_snoc:
  assumes "instancesLoop tn k (xs @ [x]) = Returns k1"
  obtains k0 where "instancesLoop tn k xs = Returns k0" and "syncInstance tn k0 x = Returns k1"
  using assms by (auto simp: instancesLoop_append split: outcome.splits)

lemma pass_settles:
  assumes "instancesLoop tn k insts = Returns k1"
    and "distinct (map fst (Nodes k))"
    and "\<And>j kj kj'. j < length insts \<Longrightarrow> instancesLoop tn k (take j insts) = Returns kj \<Longrightarrow>
           syncInstance tn kj (insts ! j) = Returns kj' \<Longrightarrow> set (Nodes kj) \<subseteq> set (Nodes kj')"
  shows "\<forall>i \<in> set insts. syncInstance tn k1 i = Returns k1"
  using assms
proof (induction insts arbitrary: k1 rule: rev_induct)
  case Nil
  then show ?case by simp
next
  case (snoc x xs)
  from snoc.prems(1) obtain k0 where k0: "instancesLoop tn k xs = Returns k0"
    and step: "syncInstance tn k0 x = Returns k1"
    by (rule instancesLoop_snoc)
  have keep: "set (Nodes k0) \<subseteq> set (Nodes k1)"
    using snoc.prems(3) [of "length xs" k0 k1] k0 step by simp
  have sub: "\<And>j kj kj'. j < length xs \<Longrightarrow> instancesLoop tn k (take j xs) = Returns kj \<Longrightarrow>
           syncInstance tn kj (xs ! j) = Returns kj' \<Longrightarrow> set (Nodes kj) \<subseteq> set (Nodes kj')"
  proof -
    fix j kj kj'
    assume "j < length xs" and "instancesLoop tn k (take j xs) = Returns kj"
      and "syncInstance tn kj (xs ! j) = Returns kj'"
    then show "set (Nodes kj) \<subseteq> set (Nodes kj')"
      using snoc.prems(3) [of j kj kj'] by (simp add: nth_append)
  qed
  have settled0: "\<forall>i \<in> set xs. syncInstance tn k0 i = Returns k0"
    using snoc.IH [OF k0 snoc.prems(2) sub] by simp
  have d1: "distinct (map fst (Nodes k1))"
    using instancesLoop_distinct [OF snoc.prems(1) snoc.prems(2)] .
  have same: "Masters k1 = Masters k0 \<and> KubeRegion k1 = KubeRegion k0"
    using syncInstance_Masters [OF step] by simp
  have "\<forall>i \<in> set xs. syncInstance tn k1 i = Returns k1"
  proof
    fix i assume "i \<in> set xs"
    with settled0 have "syncInstance tn k0 i = Returns k0" by simp
    then show "syncInstance tn k1 i = Returns k1"
      using same keep d1 by (simp add: settled_mono)
  qed
  moreover have "syncInstance tn k1 x = Returns k1" using step by (rule settled_after_step)
  ultimately show ?case by simp
qed

lemma instancesLoop_all_settled:
  "\<forall>i \<in> set insts. syncInstance tn s i = Returns s \<Longrightarrow> instancesLoop tn s insts = Returns s"
  by (induction insts) simp_all

lemma inventory_cong:
  "ID k' = ID k \<Longrightarrow> KubeRegion k' = KubeRegion k \<Longrightarrow> inventory cloud k' account = inventory cloud k account"
  by (simp add: inventory_def split: sum.splits)

lemma syncMachines_as_loop:
  "syncMachines cloud k account = Returns (k', None) \<Longrightarrow>
   instancesLoop (TagNodeName cloud) k1 (inventory cloud k account) = Returns k1 \<Longrightarrow>
   ID k1 = ID k \<Longrightarrow> KubeRegion k1 = KubeRegion k \<Longrightarrow>
   syncMachines cloud k1 account = Returns (k1, None)"
  by (auto simp: syncMachines_def inventory_def reservationsLoop_concat
      split: sum.splits prod.splits option.splits outcome.splits)


lemma syncInstance_known_skipped:
  assumes "known (Nodes k) instance"
  shows "syncInstance tn k instance = Returns k \<or> syncInstance tn k instance = Panics"
  using assms by (simp add: syncInstance_unfold split: option.splits outcome.splits)

text \<open>
  C3, as amended. For a cluster whose \<open>Nodes\<close> is a map (distinct keys): when no
  step of a pass replaces an entry of \<open>Nodes\<close> (every entry present before a step
  is present after it), a second pass over the same inventory returns the same result
  and leaves the cluster exactly as the first pass left it.
\<close>

theorem syncMachines_idempotent:
  assumes "distinct (map fst (Nodes k))"
    and "syncMachines cloud k account = Returns (k1, err)"
    and "\<forall>j kj kj'. j < length (inventory cloud k account) \<longrightarrow>
           instancesLoop (TagNodeName cloud) k (take j (inventory cloud k account)) = Returns kj \<longrightarrow>
           syncInstance (TagNodeName cloud) kj (inventory cloud k account ! j) = Returns kj' \<longrightarrow>
           set (Nodes kj) \<subseteq> set (Nodes kj')"
  shows "syncMachines cloud k1 account = Returns (k1, err)"
proof (cases err)
  case (Some e)
  with assms(2) have "k1 = k" by (simp add: syncMachines_error_unchanged)
  with assms(2) show ?thesis by simp
next
  case None
  note loop = syncMachines_Returns [OF assms(2)]
  have "\<forall>i \<in> set (inventory cloud k account). syncInstance (TagNodeName cloud) k1 i = Returns k1"
    using assms(3) by (intro pass_settles [OF loop assms(1)]) blast
  then have again: "instancesLoop (TagNodeName cloud) k1 (inventory cloud k account) = Returns k1"
    by (rule instancesLoop_all_settled)
  have "k1 = k\<lparr>Nodes := Nodes k1\<rparr>" using loop by (rule instancesLoop_frame)
  then have same: "ID k1 = ID k \<and> KubeRegion k1 = KubeRegion k \<and> Masters k1 = Masters k"
    by (rule Nodes_update_fields)
  from assms(2) None have "syncMachines cloud k account = Returns (k1, None)" by simp
  from syncMachines_as_loop [OF this again] same None show ?thesis by simp
qed

theorem syncMachines_idempotent_witness:
  "syncMachines
     (exCloud (exOutput [exInstance [nameTag ''renamed''] (Some ''10.0.1.5'') 16,
                         exInstance [nameTag ''worker-b''] (Some ''10.0.1.6'') 16]) [] None)
     (exKube [] [(''worker-a'', exMachine ''worker-a'' ''10.0.1.5''),
                 (''worker-b'', exMachine ''worker-b'' ''10.0.1.6'')]) exAccount =
   Returns (exKube [] [(''worker-a'', exMachine ''worker-a'' ''10.0.1.5''),
                       (''worker-b'', exMachine ''worker-b'' ''10.0.1.6'')], None)"
proof -
  let ?i1 = "exInstance [nameTag ''renamed''] (Some ''10.0.1.5'') 16"
  let ?i2 = "exInstance [nameTag ''worker-b''] (Some ''10.0.1.6'') 16"
  let ?cloud = "exCloud (exOutput [?i1, ?i2]) [] None"
  let ?k = "exKube [] [(''worker-a'', exMachine ''worker-a'' ''10.0.1.5'')]"
  let ?k1 = "exKube [] [(''worker-a'', exMachine ''worker-a'' ''10.0.1.5''),
                 (''worker-b'', exMachine ''worker-b'' ''10.0.1.6'')]"
  have h1: "distinct (map fst (Nodes ?k))" by (simp add: exKube_def)
  have h2: "syncMachines ?cloud ?k exAccount = Returns (?k1, None)"
    by (simp add: ex_defs sync_eval)
  have inv: "inventory ?cloud ?k exAccount = [?i1, ?i2]"
    by (simp add: inventory_def ex_defs)
  have tn: "TagNodeName ?cloud = ''Name''" by (simp add: exCloud_def)
  have s1: "syncInstance ''Name'' ?k ?i1 = Returns ?k"
    by (simp add: ex_defs sync_eval)
  have s2: "syncInstance ''Name'' ?k ?i2 = Returns ?k1"
    by (simp add: ex_defs sync_eval)
  have h3: "\<forall>j kj kj'. j < length (inventory ?cloud ?k exAccount) \<longrightarrow>
           instancesLoop (TagNodeName ?cloud) ?k (take j (inventory ?cloud ?k exAccount)) = Returns kj \<longrightarrow>
           syncInstance (TagNodeName ?cloud) kj (inventory ?cloud ?k exAccount ! j) = Returns kj' \<longrightarrow>
           set (Nodes kj) \<subseteq> set (Nodes kj')"
  proof (intro allI impI)
    fix j kj kj'
    assume j: "j < length (inventory ?cloud ?k exAccount)"
      and pre: "instancesLoop (TagNodeName ?cloud) ?k (take j (inventory ?cloud ?k exAccount)) = Returns kj"
      and step: "syncInstance (TagNodeName ?cloud) kj (inventory ?cloud ?k exAccount ! j) = Returns kj'"
    from j have "j = 0 \<or> j = 1" unfolding inv by auto
    then show "set (Nodes kj) \<subseteq> set (Nodes kj')"
    proof
      assume "j = 0"
      with pre step show ?thesis unfolding inv tn using s1 by (auto simp: exKube_def)
    next
      assume "j = 1"
      with pre step show ?thesis unfolding inv tn using s1 s2 by (auto simp: exKube_def)
    qed
  qed
  from syncMachines_idempotent [OF h1 h2 h3] show ?thesis .
qed

text \<open>
  The claim as stated fails. \<open>Nodes\<close> holds worker-a with the IP 10.0.0.1; the
  inventory has worker-b with that IP, then worker-a with the IP 10.0.0.2. The first
  pass skips worker-b (its IP is known) and replaces worker-a; the second pass no
  longer finds the IP 10.0.0.1 and inserts worker-b.
\<close>

theorem syncMachines_idempotent_counterexample:
  "syncMachines
     (exCloud (exOutput [exInstance [nameTag ''worker-b''] (Some ''10.0.0.1'') 16,
                         exInstance [nameTag ''worker-a''] (Some ''10.0.0.2'') 16]) [] None)
     (exKube [] [(''worker-a'', exMachine ''worker-a'' ''10.0.0.1'')]) exAccount =
   Returns (exKube [] [(''worker-a'', exMachine ''worker-a'' ''10.0.0.2'')], None)
   \<and> syncMachines
     (exCloud (exOutput [exInstance [nameTag ''worker-b''] (Some ''10.0.0.1'') 16,
                         exInstance [nameTag ''worker-a''] (Some ''10.0.0.2'') 16]) [] None)
     (exKube [] [(''worker-a'', exMachine ''worker-a'' ''10.0.0.2'')]) exAccount =
   Returns (exKube [] [(''worker-a'', exMachine ''worker-a'' ''10.0.0.2''),
                       (''worker-b'', exMachine ''worker-b'' ''10.0.0.1'')], None)"
  by (simp add: ex_defs sync_eval)

subsection \<open>The end-to-end scenario\<close>

text \<open>
  C5. A cluster with empty \<open>Masters\<close> and \<open>Nodes\<close>, an inventory of exactly one
  instance with state code 16, private IP 10.0.1.5 and node-name tag worker-a: the
  pass returns without error and \<open>Nodes\<close> holds exactly one entry, keyed worker-a,
  whose Machine has the private IP 10.0.1.5, the role worker and the state active
  (whatever the instance type and the public IP of the instance are).
\<close>

theorem syncMachines_end_to_end:
  assumes "FillCloudAccountCredentials cloud account = Inr awsConfig"
    and "GetEC2 cloud (awsConfig\<lparr>AWSRegion := KubeRegion k\<rparr>) = Inr ec2"
    and "DescribeInstances ec2 (''tag:'' @ TagClusterID cloud) (ID k) =
           (\<lparr>Reservations = [\<lparr>Instances =
               [\<lparr>InstanceType = Some ty, PublicIpAddress = pub,
                 PrivateIpAddress = Some ''10.0.1.5'',
                 Tags = [\<lparr>Key = Some (TagNodeName cloud), Value = Some ''worker-a''\<rparr>],
                 InstState = Some \<lparr>Code = Some 16\<rparr>\<rparr>]\<rparr>]\<rparr>, None)"
    and "Masters k = []" and "Nodes k = []"
  shows "syncMachines cloud k account =
           Returns (k\<lparr>Nodes :=
             [(''worker-a'',
               \<lparr>Name = ''worker-a'', Size = ty, State = MachineStateActive, Role = RoleNode,
                Region = KubeRegion k,
                PublicIp = (case pub of None \<Rightarrow> [] | Some a \<Rightarrow> a),
                PrivateIp = ''10.0.1.5''\<rparr>)]\<rparr>, None)"
  using assms
  by (cases pub) (simp_all add: syncMachines_def syncInstance_def stateCode_def Let_def)

theorem syncMachines_end_to_end_witness:
  "syncMachines
     (exCloud (exOutput [exInstance [nameTag ''worker-a''] (Some ''10.0.1.5'') 16]) [] None)
     (exKube [] []) exAccount =
   Returns (exKube [] [(''worker-a'', exMachine ''worker-a'' ''10.0.1.5'')], None)"
  using syncMachines_end_to_end
    [of "exCloud (exOutput [exInstance [nameTag ''worker-a''] (Some ''10.0.1.5'') 16]) [] None"
        exAccount "exAWSConfig ''80''" "exKube [] []"
        "exEC2 (exOutput [exInstance [nameTag ''worker-a''] (Some ''10.0.1.5'') 16]) [] None"
        "''m4.large''" None]
  by (simp add: exCloud_def exEC2_def exOutput_def exInstance_def nameTag_def exKube_def
      exMachine_def)

section \<open>Properties of createAwsSpotInstance\<close>

text \<open>\<^verbatim>\<open>ParseInt\<close> on some volume sizes.\<close>

lemma ParseInt_examples:
  "ParseInt ''80'' = Inr 80"
  "ParseInt ''80GB'' = Inl ErrSyntax"
  "ParseInt [] = Inl ErrSyntax"
  "ParseInt ''+'' = Inl ErrSyntax"
  "ParseInt ''-9223372036854775808'' = Inr (- 9223372036854775808)"
  "ParseInt ''9223372036854775808'' = Inl ErrRange"
  by (simp_all add: ParseInt_def ParseUint_def isDigit_def)

text \<open>A volume size that parses is submitted, in one persistent request.\<close>

lemma createAwsSpotInstance_well_formed:
  assumes "GetEC2 cloud (AWSConfig config) = Inr svc"
    and "ParseInt (VolumeSize (AWSConfig config)) = Inr n"
  shows "\<exists>input. Submitted (createAwsSpotInstance cloud req config) = [input] \<and>
           ReqVolumeSize input = n \<and> ReqType input = ''persistent''"
  using assms
  by (simp add: createAwsSpotInstance_def Let_def split: option.splits)

text \<open>
  C7. When the configured volume size does not parse as a decimal integer,
  \<^verbatim>\<open>createAwsSpotInstance\<close> returns an error, makes no \<^verbatim>\<open>RequestSpotInstances\<close>
  call and starts no completion task; when the client was constructed, the error is the
  parse error, wrapped.
\<close>

theorem createAwsSpotInstance_malformed_volume_size:
  assumes "ParseInt (VolumeSize (AWSConfig config)) = Inl perr"
  shows "Err (createAwsSpotInstance cloud req config) \<noteq> None
       \<and> Submitted (createAwsSpotInstance cloud req config) = []
       \<and> TaskStarted (createAwsSpotInstance cloud req config) = False
       \<and> (GetEC2 cloud (AWSConfig config) = Inr svc \<longrightarrow>
            Err (createAwsSpotInstance cloud req config) =
              Some (Wrap perr (''parse volume size '' @ VolumeSize (AWSConfig config))))"
  using assms
  by (cases "GetEC2 cloud (AWSConfig config)") (simp_all add: createAwsSpotInstance_def Let_def)

theorem createAwsSpotInstance_malformed_volume_size_witness:
  "createAwsSpotInstance (exCloud (exOutput []) [] None)
     \<lparr>MachineType = ''m4.large'', SpotPrice = ''0.03'', AvailabilityZoneReq = ''eu-west-1a'',
      MachineCount = 2\<rparr>
     \<lparr>Provider = ''aws'', AWSConfig = exAWSConfig ''80GB'', ConfigMapData = [],
      DryRun = False, IsMaster = False\<rparr> =
   \<lparr>ConfigAfter = \<lparr>Provider = ''aws'',
        AWSConfig = (exAWSConfig ''80GB'')\<lparr>AWSInstanceType := ''m4.large''\<rparr>,
        ConfigMapData = [], DryRun = False, IsMaster = False\<rparr>,
     Submitted = [], TaskStarted = False,
     Err = Some (Wrap ErrSyntax ''parse volume size 80GB'')\<rparr>"
  using createAwsSpotInstance_malformed_volume_size
    [of "\<lparr>Provider = ''aws'', AWSConfig = exAWSConfig ''80GB'', ConfigMapData = [],
      DryRun = False, IsMaster = False\<rparr>" ErrSyntax "exCloud (exOutput []) [] None"
      "\<lparr>MachineType = ''m4.large'', SpotPrice = ''0.03'', AvailabilityZoneReq = ''eu-west-1a'',
      MachineCount = 2\<rparr>" "exEC2 (exOutput []) [] None"]
  by (simp add: createAwsSpotInstance_def exCloud_def exEC2_def exAWSConfig_def
      ParseInt_def ParseUint_def isDigit_def)

section \<open>Properties of getAwsSpotPrices\<close>

subsection \<open>EqualFold is equality up to ASCII case\<close>

lemma of_char_asciiLower:
  "(of_char (asciiLower c) :: nat) =
     (if 65 \<le> (of_char c :: nat) \<and> (of_char c :: nat) \<le> 90 then of_char c + 32 else of_char c)"
  by (simp add: asciiLower_def)

lemma asciiLower_eq_iff:
  "asciiLower s = asciiLower t \<longleftrightarrow>
     t = s \<or> (65 \<le> min (of_char s) (of_char t :: nat) \<and> min (of_char s) (of_char t :: nat) \<le> 90 \<and>
              max (of_char s) (of_char t :: nat) = min (of_char s) (of_char t) + 32)"
proof -
  have "asciiLower s = asciiLower t \<longleftrightarrow>
      (of_char (asciiLower s) :: nat) = of_char (asciiLower t)"
    by simp
  moreover have "t = s \<longleftrightarrow> (of_char t :: nat) = of_char s"
    by simp
  ultimately show ?thesis
    unfolding of_char_asciiLower by (auto simp: min_def max_def)
qed

lemma EqualFold_iff: "EqualFold s t \<longleftrightarrow> map asciiLower s = map asciiLower t"
proof (induction s t rule: EqualFold.induct)
  case (4 s ss t ts)
  then show ?case
    using asciiLower_eq_iff [of s t] by (auto simp: Let_def)
qed simp_all

subsection \<open>The filter\<close>

lemma pricesLoop_entries:
  "pricesLoop (map priceEntry entries) acc =
     Returns (acc @ map snd (filter (\<lambda>e. isLinuxUnix (fst e)) entries))"
proof (induction entries arbitrary: acc)
  case Nil
  then show ?case by simp
next
  case (Cons e entries)
  then show ?case
    by (simp add: priceEntry_def isLinuxUnix_def EqualFold_iff)
qed

lemma getAwsSpotPrices_unfold:
  assumes "GetEC2 cloud (AWSConfig config) = Inr svc"
  shows "getAwsSpotPrices cloud machineType config =
     (case pricesLoop (SpotPriceHistory (fst (DescribeSpotPriceHistory svc
              \<lparr>ReqAvailabilityZone = AvailabilityZone (AWSConfig config), EndTime = Now cloud,
               StartTime = Now cloud - 24 * 7 * 3600, InstanceTypes = [machineType]\<rparr>))) [] of
        Panics \<Rightarrow> Panics
      | Returns spotPrices \<Rightarrow> Returns (spotPrices, None))"
  using assms by (simp add: getAwsSpotPrices_def Let_def)

text \<open>
  C8. When the client is constructed and the price-history query answers entries that
  each carry a description and a price, \<^verbatim>\<open>getAwsSpotPrices\<close> returns, with a nil
  error, exactly the prices of the entries whose description equals
  \<^verbatim>\<open>Linux/UNIX\<close> up to the case of ASCII letters, in the order of the answer; for an
  empty history it returns the empty list and a nil error.
\<close>

theorem getAwsSpotPrices_filters_linux:
  assumes "GetEC2 cloud (AWSConfig config) = Inr svc"
    and "fst (DescribeSpotPriceHistory svc
              \<lparr>ReqAvailabilityZone = AvailabilityZone (AWSConfig config), EndTime = Now cloud,
               StartTime = Now cloud - 24 * 7 * 3600, InstanceTypes = [machineType]\<rparr>) =
         \<lparr>SpotPriceHistory = map priceEntry entries\<rparr>"
  shows "getAwsSpotPrices cloud machineType config =
           Returns (map snd (filter (\<lambda>e. isLinuxUnix (fst e)) entries), None)
       \<and> (entries = [] \<longrightarrow> getAwsSpotPrices cloud machineType config = Returns ([], None))"
  using assms by (simp add: getAwsSpotPrices_unfold pricesLoop_entries)

theorem getAwsSpotPrices_filters_linux_witness:
  "getAwsSpotPrices
     (exCloud (exOutput [])
        [priceEntry (''Linux/UNIX'', ''0.0310''), priceEntry (''Windows'', ''0.1200''),
         priceEntry (''linux/unix'', ''0.0305''), priceEntry (''SUSE Linux'', ''0.0400''),
         priceEntry (''LINUX/UNIX'', ''0.0299'')] None)
     ''m4.large'' \<lparr>Provider = ''aws'', AWSConfig = exAWSConfig ''80'', ConfigMapData = [],
                    DryRun = False, IsMaster = False\<rparr> =
   Returns ([''0.0310'', ''0.0305'', ''0.0299''], None)"
  using getAwsSpotPrices_filters_linux
    [of "exCloud (exOutput [])
        [priceEntry (''Linux/UNIX'', ''0.0310''), priceEntry (''Windows'', ''0.1200''),
         priceEntry (''linux/unix'', ''0.0305''), priceEntry (''SUSE Linux'', ''0.0400''),
         priceEntry (''LINUX/UNIX'', ''0.0299'')] None"
        "\<lparr>Provider = ''aws'', AWSConfig = exAWSConfig ''80'', ConfigMapData = [],
                    DryRun = False, IsMaster = False\<rparr>"
        "exEC2 (exOutput [])
        [priceEntry (''Linux/UNIX'', ''0.0310''), priceEntry (''Windows'', ''0.1200''),
         priceEntry (''linux/unix'', ''0.0305''), priceEntry (''SUSE Linux'', ''0.0400''),
         priceEntry (''LINUX/UNIX'', ''0.0299'')] None"
        "''m4.large''"
        "[(''Linux/UNIX'', ''0.0310''), (''Windows'', ''0.1200''),
         (''linux/unix'', ''0.0305''), (''SUSE Linux'', ''0.0400''),
         (''LINUX/UNIX'', ''0.0299'')]"]
  by (simp add: exCloud_def exEC2_def isLinuxUnix_def asciiLower_eq_iff)

text \<open>
  C9. \<^verbatim>\<open>getAwsSpotPrices\<close> returns an error only when the construction of the
  client failed, and then it is that error, wrapped. Whatever error the price-history
  query returns next to its answer, the function returns the filtered prices of the
  answer (none for an empty answer) and a nil error.
\<close>

theorem getAwsSpotPrices_query_error_ignored:
  "(getAwsSpotPrices cloud machineType config = Returns (prices, Some e) \<longrightarrow>
      (\<exists>err. GetEC2 cloud (AWSConfig config) = Inl err \<and> e = Wrap err ''get EC2 client''))
   \<and> (GetEC2 cloud (AWSConfig config) = Inr svc \<and>
      DescribeSpotPriceHistory svc
              \<lparr>ReqAvailabilityZone = AvailabilityZone (AWSConfig config), EndTime = Now cloud,
               StartTime = Now cloud - 24 * 7 * 3600, InstanceTypes = [machineType]\<rparr> =
         (\<lparr>SpotPriceHistory = map priceEntry entries\<rparr>, qerr) \<longrightarrow>
      getAwsSpotPrices cloud machineType config =
        Returns (map snd (filter (\<lambda>e. isLinuxUnix (fst e)) entries), None))"
proof (intro conjI impI)
  assume r: "getAwsSpotPrices cloud machineType config = Returns (prices, Some e)"
  show "\<exists>err. GetEC2 cloud (AWSConfig config) = Inl err \<and> e = Wrap err ''get EC2 client''"
  proof (cases "GetEC2 cloud (AWSConfig config)")
    case (Inl err)
    with r show ?thesis by (simp add: getAwsSpotPrices_def)
  next
    case (Inr svc')
    with r show ?thesis
      by (simp add: getAwsSpotPrices_unfold split: outcome.splits)
  qed
next
  assume "GetEC2 cloud (AWSConfig config) = Inr svc \<and>
      DescribeSpotPriceHistory svc
              \<lparr>ReqAvailabilityZone = AvailabilityZone (AWSConfig config), EndTime = Now cloud,
               StartTime = Now cloud - 24 * 7 * 3600, InstanceTypes = [machineType]\<rparr> =
         (\<lparr>SpotPriceHistory = map priceEntry entries\<rparr>, qerr)"
  then show "getAwsSpotPrices cloud machineType config =
        Returns (map snd (filter (\<lambda>e. isLinuxUnix (fst e)) entries), None)"
    by (simp add: getAwsSpotPrices_unfold pricesLoop_entries)
qed

theorem getAwsSpotPrices_query_error_ignored_witness:
  "getAwsSpotPrices (exCloud (exOutput []) [] (Some (ProviderError ''RequestLimitExceeded'')))
     ''m4.large'' \<lparr>Provider = ''aws'', AWSConfig = exAWSConfig ''80'', ConfigMapData = [],
                    DryRun = False, IsMaster = False\<rparr> =
   Returns ([], None)"
  using getAwsSpotPrices_query_error_ignored
    [of "exCloud (exOutput []) [] (Some (ProviderError ''RequestLimitExceeded''))" "''m4.large''"
        "\<lparr>Provider = ''aws'', AWSConfig = exAWSConfig ''80'', ConfigMapData = [],
                    DryRun = False, IsMaster = False\<rparr>" "[]" "ErrSyntax"
        "exEC2 (exOutput []) [] (Some (ProviderError ''RequestLimitExceeded''))" "[]"
        "Some (ProviderError ''RequestLimitExceeded'')"]
  by (simp add: exCloud_def exEC2_def)

end
